theory Spec2Isabelle
  imports Main
begin

section \<open>Aghamon: a shallow embedding of main.go\<close>

text \<open>
  The dashboard is one Go file. Its handlers talk to three things outside the program:
  the embedded asset store, the appliance reached over HTTP, and the operating system
  (files and environment). Each of them is a parameter of the model; everything the
  source computes itself is a HOL function with the source's name.

  Go strings are byte sequences, and so is \<^typ>\<open>string\<close>.
\<close>

subsection \<open>The strings package\<close>

text \<open>\<^verbatim>\<open>len(s) >= len(prefix) && s[:len(prefix)] == prefix\<close>\<close>

definition HasPrefix :: "string \<Rightarrow> string \<Rightarrow> bool" where
  "HasPrefix s pre = (length s \<ge> length pre \<and> take (length pre) s = pre)"

text \<open>\<^verbatim>\<open>len(s) >= len(suffix) && s[len(s)-len(suffix):] == suffix\<close>\<close>

definition HasSuffix :: "string \<Rightarrow> string \<Rightarrow> bool" where
  "HasSuffix s suf = (length s \<ge> length suf \<and> drop (length s - length suf) s = suf)"

text \<open>\<^verbatim>\<open>strings.Contains\<close>: does \<open>substr\<close> start at some position of \<open>s\<close>?\<close>

fun Contains :: "string \<Rightarrow> string \<Rightarrow> bool" where
  "Contains [] substr = (substr = [])"
| "Contains (c # cs) substr = (HasPrefix (c # cs) substr \<or> Contains cs substr)"

subsection \<open>The fmt package\<close>

text \<open>
  The verb \<^verbatim>\<open>%s\<close> on a string inserts the string, so a \<^verbatim>\<open>Sprintf\<close> is the
  concatenation of the pieces of its format with its arguments. \<^verbatim>\<open>%d\<close> writes an integer
  in decimal, with a minus sign when negative.
\<close>

fun showNat :: "nat \<Rightarrow> string" where
  "showNat n =
     (if n < 10 then [''0123456789'' ! n]
      else showNat (n div 10) @ [''0123456789'' ! (n mod 10)])"

declare showNat.simps [simp del]

definition showInt :: "int \<Rightarrow> string" where
  "showInt i = (if i < 0 then CHR ''-'' # showNat (nat (- i)) else showNat (nat i))"

subsection \<open>The data model\<close>

record WhoisInfo =
  Country :: string
  OrgName :: string
  City :: string

record Client =
  IP :: string
  Name :: string
  Source :: string
  WhoisInfo :: WhoisInfo

record ClientsResponse =
  Clients :: "Client list"
  AutoClients :: "Client list"
  SupportedTags :: "string list"

text \<open>
  A value of type \<^verbatim>\<open>map[string]V\<close> is the list of its entries, with distinct keys.
  The order of the list means nothing to the program: the Go runtime chooses where a
  \<^verbatim>\<open>range\<close> over a map starts, anew at each loop. The model makes this choice a
  parameter, a number \<open>r\<close> drawn by the runtime: the loop
  \<^verbatim>\<open>for key, value := range item { ...; break }\<close> runs its body once, on the
  entry \<open>rangeFirst r item\<close>, and not at all on an empty map.
\<close>

type_synonym 'v gomap = "(string \<times> 'v) list"

fun rangeFirst :: "nat \<Rightarrow> 'v gomap \<Rightarrow> (string \<times> 'v) option" where
  "rangeFirst r [] = None"
| "rangeFirst r (e # es) = Some ((e # es) ! (r mod length (e # es)))"

text \<open>
  \<^verbatim>\<open>float64\<close> values are only carried from the appliance's JSON to the verb
  \<^verbatim>\<open>%.6f\<close>; their type is the parameter \<open>'f\<close> and the verb the parameter \<open>fmt6\<close>.
\<close>

record 'f StatsResponse =
  TimeUnits :: string
  TopQueriedDomains :: "int gomap list"
  TopClients :: "int gomap list"
  TopBlockedDomains :: "int gomap list"
  TopUpstreamsResponses :: "int gomap list"
  TopUpstreamsAvgTime :: "'f gomap list"
  DNSQueries :: "int list"
  BlockedFiltering :: "int list"
  NumDNSQueries :: int
  NumBlockedFiltering :: int
  AvgProcessingTime :: 'f

subsection \<open>Configuration\<close>

record AdGuardConfig =
  ServerURL :: string
  Username :: string
  Password :: string

record Config =
  AdGuard :: AdGuardConfig

text \<open>An \<^verbatim>\<open>error\<close> value is known to the program by its text, \<^verbatim>\<open>err.Error()\<close>.\<close>

datatype error = Error (errorText: string)

text \<open>
  A YAML document as the decoder sees it: a null, a scalar with its text, a sequence, or a
  mapping from keys to documents, in the order of the file. The model covers plain
  documents (string keys, no tags, anchors or merge keys).
\<close>

datatype yaml =
    Null
  | Scalar string
  | Sequence "yaml list"
  | Mapping "(string \<times> yaml) list"

text \<open>
  What \<^verbatim>\<open>gopkg.in/yaml.v3\<close> does when it decodes a document into a value that the
  program has declared, by the kind of the value. Its messages are shortened to their
  first words.

  Into a \<^verbatim>\<open>string\<close>: a scalar stores its text, a null stores nothing, anything else
  is a type error.
\<close>

definition cannotUnmarshal :: error where
  "cannotUnmarshal = Error ''yaml: unmarshal errors''"

fun decodeString :: "yaml \<Rightarrow> string \<Rightarrow> error + string" where
  "decodeString Null out = Inr out"
| "decodeString (Scalar s) out = Inr s"
| "decodeString (Sequence ns) out = Inl cannotUnmarshal"
| "decodeString (Mapping es) out = Inl cannotUnmarshal"

text \<open>
  Into the inner struct, whose fields carry the tags \<^verbatim>\<open>server_url\<close>, \<^verbatim>\<open>username\<close>
  and \<^verbatim>\<open>password\<close>: a mapping with a key twice is an error; otherwise each entry
  whose key is a tag is decoded into that field, and an entry with any other key is
  skipped. A field no entry names is not touched. A null stores nothing; a scalar or a
  sequence is a type error.
\<close>

fun decodeAdGuardEntries :: "(string \<times> yaml) list \<Rightarrow> AdGuardConfig \<Rightarrow> error + AdGuardConfig" where
  "decodeAdGuardEntries [] out = Inr out"
| "decodeAdGuardEntries ((key, node) # entries) out =
     (if key = ''server_url'' then
        (case decodeString node (ServerURL out) of
           Inl err \<Rightarrow> Inl err
         | Inr s \<Rightarrow> decodeAdGuardEntries entries (out\<lparr>ServerURL := s\<rparr>))
      else if key = ''username'' then
        (case decodeString node (Username out) of
           Inl err \<Rightarrow> Inl err
         | Inr s \<Rightarrow> decodeAdGuardEntries entries (out\<lparr>Username := s\<rparr>))
      else if key = ''password'' then
        (case decodeString node (Password out) of
           Inl err \<Rightarrow> Inl err
         | Inr s \<Rightarrow> decodeAdGuardEntries entries (out\<lparr>Password := s\<rparr>))
      else decodeAdGuardEntries entries out)"

fun decodeAdGuard :: "yaml \<Rightarrow> AdGuardConfig \<Rightarrow> error + AdGuardConfig" where
  "decodeAdGuard Null out = Inr out"
| "decodeAdGuard (Mapping entries) out =
     (if distinct (map fst entries) then decodeAdGuardEntries entries out
      else Inl cannotUnmarshal)"
| "decodeAdGuard (Scalar s) out = Inl cannotUnmarshal"
| "decodeAdGuard (Sequence ns) out = Inl cannotUnmarshal"

text \<open>Into \<^verbatim>\<open>Config\<close>, whose one field carries the tag \<^verbatim>\<open>adguard\<close>: the same.\<close>

fun decodeConfigEntries :: "(string \<times> yaml) list \<Rightarrow> Config \<Rightarrow> error + Config" where
  "decodeConfigEntries [] out = Inr out"
| "decodeConfigEntries ((key, node) # entries) out =
     (if key = ''adguard'' then
        (case decodeAdGuard node (AdGuard out) of
           Inl err \<Rightarrow> Inl err
         | Inr a \<Rightarrow> decodeConfigEntries entries (out\<lparr>AdGuard := a\<rparr>))
      else decodeConfigEntries entries out)"

fun decodeConfig :: "yaml \<Rightarrow> Config \<Rightarrow> error + Config" where
  "decodeConfig Null out = Inr out"
| "decodeConfig (Mapping entries) out =
     (if distinct (map fst entries) then decodeConfigEntries entries out
      else Inl cannotUnmarshal)"
| "decodeConfig (Scalar s) out = Inl cannotUnmarshal"
| "decodeConfig (Sequence ns) out = Inl cannotUnmarshal"

text \<open>
  A file is known to the decoder by what the YAML parser makes of its bytes: a syntax
  error, or the documents of the stream. A file that is empty, or holds comments only, is
  the stream of no document. \<^verbatim>\<open>decoder.Decode(&config)\<close> decodes the first document of
  the stream, and returns \<^verbatim>\<open>io.EOF\<close> when there is none.
\<close>

type_synonym yamlFile = "error + yaml list"

fun Decode :: "yamlFile \<Rightarrow> Config \<Rightarrow> error + Config" where
  "Decode (Inl err) out = Inl err"
| "Decode (Inr []) out = Inl (Error ''EOF'')"
| "Decode (Inr (document # documents)) out = decodeConfig document out"

text \<open>The zero value of \<^verbatim>\<open>var config Config\<close>.\<close>

definition zeroConfig :: Config where
  "zeroConfig = \<lparr>AdGuard = \<lparr>ServerURL = [], Username = [], Password = []\<rparr>\<rparr>"

text \<open>\<open>Open\<close> is \<^verbatim>\<open>os.Open\<close>: an error, or the file.\<close>

definition loadConfig :: "(string \<Rightarrow> error + yamlFile) \<Rightarrow> error + Config" where
  "loadConfig Open =
     (case Open ''config.yaml'' of
        Inl err \<Rightarrow> Inl err
      | Inr file \<Rightarrow>
          (case Decode file zeroConfig of
             Inl err \<Rightarrow> Inl err
           | Inr config \<Rightarrow> Inr config))"

subsection \<open>The appliance client\<close>

text \<open>
  \<^verbatim>\<open>base64.StdEncoding.EncodeToString\<close>: three bytes make a 24-bit value, written as
  four characters of the alphabet; one or two bytes left over are padded with \<^verbatim>\<open>=\<close>.
\<close>

definition encodeStd :: string where
  "encodeStd = ''ABCDEFGHIJKLMNOPQRSTUVWXYZabcdefghijklmnopqrstuvwxyz0123456789+/''"

definition enc :: "nat \<Rightarrow> char" where
  "enc v = encodeStd ! (v mod 64)"

fun EncodeToString :: "string \<Rightarrow> string" where
  "EncodeToString (a # b # c # src) =
     (let val = of_char a * 65536 + of_char b * 256 + of_char c
      in [enc (val div 262144), enc (val div 4096), enc (val div 64), enc val])
     @ EncodeToString src"
| "EncodeToString [a, b] =
     (let val = of_char a * 65536 + of_char b * 256
      in [enc (val div 262144), enc (val div 4096), enc (val div 64), CHR ''=''])"
| "EncodeToString [a] =
     (let val = of_char a * 65536
      in [enc (val div 262144), enc (val div 4096), CHR ''='', CHR ''=''])"
| "EncodeToString [] = []"

definition getBasicAuth :: "string \<Rightarrow> string \<Rightarrow> string" where
  "getBasicAuth username password =
     (let auth = username @ '':'' @ password in EncodeToString auth)"

text \<open>
  A request is its method, its URL and its header; \<^verbatim>\<open>req.Header.Set\<close> stores one
  value under a key (the three keys used are in canonical form already).
\<close>

record request =
  Method :: string
  URL :: string
  Header :: "string \<rightharpoonup> string"

definition Set :: "string \<Rightarrow> string \<Rightarrow> request \<Rightarrow> request" where
  "Set key val req = req\<lparr>Header := (Header req)(key \<mapsto> val)\<rparr>"

text \<open>
  The world outside the process, as the appliance client sees it:
  \<^item> \<open>urlParse\<close>: \<^verbatim>\<open>http.NewRequest\<close> parses the URL and fails when it does not parse;
  \<^item> \<open>clientDo\<close>: \<^verbatim>\<open>client.Do\<close> fails, or returns a response whose body
    \<^verbatim>\<open>io.ReadAll\<close> fails to read or reads to the end;
  \<^item> \<open>unmarshalClients\<close>, \<open>unmarshalStats\<close>: \<^verbatim>\<open>json.Unmarshal\<close> into a zero value
    of the two response types.
\<close>

record 'f env =
  urlParse :: "string \<Rightarrow> error option"
  clientDo :: "request \<Rightarrow> error + (error + string)"
  unmarshalClients :: "string \<Rightarrow> error + ClientsResponse"
  unmarshalStats :: "string \<Rightarrow> error + 'f StatsResponse"

definition NewRequest :: "'f env \<Rightarrow> string \<Rightarrow> string \<Rightarrow> error + request" where
  "NewRequest env method url =
     (case urlParse env url of
        Some err \<Rightarrow> Inl err
      | None \<Rightarrow> Inr \<lparr>Method = method, URL = url, Header = Map.empty\<rparr>)"

text \<open>
  Both fetch functions return, beside their result, the requests they handed to
  \<^verbatim>\<open>client.Do\<close>.
\<close>

definition fetchClients :: "'f env \<Rightarrow> Config \<Rightarrow> request list \<times> (error + ClientsResponse)" where
  "fetchClients env config =
     (let url = ServerURL (AdGuard config) @ ''/control/clients'' in
      case NewRequest env ''GET'' url of
        Inl err \<Rightarrow> ([], Inl err)
      | Inr req \<Rightarrow>
          (let authHeader = getBasicAuth (Username (AdGuard config)) (Password (AdGuard config));
               req = Set ''Authorization'' (''Basic '' @ authHeader) req;
               req = Set ''Accept'' ''application/json'' req;
               req = Set ''Referer'' (ServerURL (AdGuard config) @ ''/'') req
           in ([req],
               case clientDo env req of
                 Inl err \<Rightarrow> Inl err
               | Inr (Inl err) \<Rightarrow> Inl err
               | Inr (Inr body) \<Rightarrow>
                   (case unmarshalClients env body of
                      Inl err \<Rightarrow> Inl err
                    | Inr clientsResponse \<Rightarrow> Inr clientsResponse))))"

definition fetchStats :: "'f env \<Rightarrow> Config \<Rightarrow> request list \<times> (error + 'f StatsResponse)" where
  "fetchStats env config =
     (let url = ServerURL (AdGuard config) @ ''/control/stats'' in
      case NewRequest env ''GET'' url of
        Inl err \<Rightarrow> ([], Inl err)
      | Inr req \<Rightarrow>
          (let authHeader = getBasicAuth (Username (AdGuard config)) (Password (AdGuard config));
               req = Set ''Authorization'' (''Basic '' @ authHeader) req;
               req = Set ''Accept'' ''application/json'' req;
               req = Set ''Referer'' (ServerURL (AdGuard config) @ ''/'') req
           in ([req],
               case clientDo env req of
                 Inl err \<Rightarrow> Inl err
               | Inr (Inl err) \<Rightarrow> Inl err
               | Inr (Inr body) \<Rightarrow>
                   (case unmarshalStats env body of
                      Inl err \<Rightarrow> Inl err
                    | Inr statsResponse \<Rightarrow> Inr statsResponse))))"

subsection \<open>The view renderers\<close>

text \<open>
  A \<^verbatim>\<open>strings.Builder\<close> is the string written so far; \<^verbatim>\<open>sb.WriteString(s)\<close>
  appends to it. The raw string literals are those of the source, line by line.
\<close>

definition clientsTableHead :: string where
  \<open>clientsTableHead =
     ''<div class="table-container"><div class="mobile-table-info">Swipe horizontally to view all columns</div><table>\<newline>'' @
     ''    <thead>\<newline>'' @
     ''      <tr>\<newline>'' @
     ''        <th>IP Address</th>\<newline>'' @
     ''        <th>Name</th>\<newline>'' @
     ''        <th>Source</th>\<newline>'' @
     ''        <th>Country</th>\<newline>'' @
     ''        <th>Organization</th>\<newline>'' @
     ''        <th>City</th>\<newline>'' @
     ''      </tr>\<newline>'' @
     ''    </thead>\<newline>'' @
     ''    <tbody>''\<close>

definition clientRow :: "Client \<Rightarrow> string" where
  \<open>clientRow client =
     ''\<newline>'' @
     ''      <tr>\<newline>'' @
     ''        <td>'' @
     IP client @
     ''</td>\<newline>'' @
     ''        <td>'' @
     Name client @
     ''</td>\<newline>'' @
     ''        <td>'' @
     Source client @
     ''</td>\<newline>'' @
     ''        <td>'' @
     Country (WhoisInfo client) @
     ''</td>\<newline>'' @
     ''        <td>'' @
     OrgName (WhoisInfo client) @
     ''</td>\<newline>'' @
     ''        <td>'' @
     City (WhoisInfo client) @
     ''</td>\<newline>'' @
     ''      </tr>''\<close>

definition tableFoot :: string where
  \<open>tableFoot = ''</tbody></table></div>''\<close>

definition generateHTMLTable :: "Client list \<Rightarrow> string" where
  "generateHTMLTable clients =
     foldl (\<lambda>sb client. sb @ clientRow client) clientsTableHead clients @ tableFoot"

definition statsTableHead :: "string \<Rightarrow> string" where
  \<open>statsTableHead valueLabel =
     ''<div class="table-container"><div class="mobile-table-info">Swipe horizontally to view all columns</div><table>\<newline>'' @
     ''    <thead>\<newline>'' @
     ''      <tr>\<newline>'' @
     ''        <th>#</th>\<newline>'' @
     ''        <th>Name</th>\<newline>'' @
     ''        <th style="text-align: right;">'' @
     valueLabel @
     ''</th>\<newline>'' @
     ''      </tr>\<newline>'' @
     ''    </thead>\<newline>'' @
     ''    <tbody>''\<close>

definition statsRow :: "int \<Rightarrow> string \<Rightarrow> int \<Rightarrow> string" where
  \<open>statsRow n key val =
     ''\<newline>'' @
     ''        <tr>\<newline>'' @
     ''          <td>'' @
     showInt n @
     ''</td>\<newline>'' @
     ''          <td>'' @
     key @
     ''</td>\<newline>'' @
     ''          <td style="text-align: right;">'' @
     showInt val @
     ''</td>\<newline>'' @
     ''        </tr>''\<close>

text \<open>
  The loop \<^verbatim>\<open>for i, item := range data\<close> of \<^verbatim>\<open>generateStatsTable\<close>, from index
  \<open>i\<close> on; \<open>rnd i\<close> is the runtime's choice for the inner \<^verbatim>\<open>range\<close> over item \<open>i\<close>.
\<close>

fun statsLoop :: "(nat \<Rightarrow> nat) \<Rightarrow> nat \<Rightarrow> int gomap list \<Rightarrow> string \<Rightarrow> string" where
  "statsLoop rnd i [] sb = sb"
| "statsLoop rnd i (item # data) sb =
     statsLoop rnd (i + 1) data
       (case rangeFirst (rnd i) item of
          None \<Rightarrow> sb
        | Some (key, val) \<Rightarrow> sb @ statsRow (int i + 1) key val)"

definition generateStatsTable :: "(nat \<Rightarrow> nat) \<Rightarrow> string \<Rightarrow> int gomap list \<Rightarrow> string \<Rightarrow> string" where
  "generateStatsTable rnd title data valueLabel =
     statsLoop rnd 0 data ((''<h3>'' @ title @ ''</h3>'') @ statsTableHead valueLabel) @ tableFoot"

definition upstreamsTableHead :: "string \<Rightarrow> string" where
  \<open>upstreamsTableHead valueLabel =
     ''<div class="table-container"><div class="mobile-table-info">Swipe horizontally to view all columns</div><table>\<newline>'' @
     ''    <thead>\<newline>'' @
     ''      <tr>\<newline>'' @
     ''        <th>#</th>\<newline>'' @
     ''        <th>Upstream</th>\<newline>'' @
     ''        <th style="text-align: right;">'' @
     valueLabel @
     ''</th>\<newline>'' @
     ''      </tr>\<newline>'' @
     ''    </thead>\<newline>'' @
     ''    <tbody>''\<close>

definition upstreamsRow :: "('f \<Rightarrow> string) \<Rightarrow> int \<Rightarrow> string \<Rightarrow> 'f \<Rightarrow> string" where
  \<open>upstreamsRow fmt6 n key val =
     ''\<newline>'' @
     ''        <tr>\<newline>'' @
     ''          <td>'' @
     showInt n @
     ''</td>\<newline>'' @
     ''          <td>'' @
     key @
     ''</td>\<newline>'' @
     ''          <td style="text-align: right;">'' @
     fmt6 val @
     ''</td>\<newline>'' @
     ''        </tr>''\<close>

fun upstreamsLoop :: "('f \<Rightarrow> string) \<Rightarrow> (nat \<Rightarrow> nat) \<Rightarrow> nat \<Rightarrow> 'f gomap list \<Rightarrow> string \<Rightarrow> string" where
  "upstreamsLoop fmt6 rnd i [] sb = sb"
| "upstreamsLoop fmt6 rnd i (item # data) sb =
     upstreamsLoop fmt6 rnd (i + 1) data
       (case rangeFirst (rnd i) item of
          None \<Rightarrow> sb
        | Some (key, val) \<Rightarrow> sb @ upstreamsRow fmt6 (int i + 1) key val)"

definition generateUpstreamsTable ::
  "('f \<Rightarrow> string) \<Rightarrow> (nat \<Rightarrow> nat) \<Rightarrow> string \<Rightarrow> 'f gomap list \<Rightarrow> string \<Rightarrow> string" where
  "generateUpstreamsTable fmt6 rnd title data valueLabel =
     upstreamsLoop fmt6 rnd 0 data
       ((''<h3>'' @ title @ ''</h3>'') @ upstreamsTableHead valueLabel) @ tableFoot"

definition generateHomeContent :: string where
  \<open>generateHomeContent =
     ''<h1>Welcome to Aghamon</h1>\<newline>'' @
     ''<p>Monitor your DNS queries, clients, and upstream performance in real-time.</p>\<newline>'' @
     ''\<newline>'' @
     ''<div style="display: grid; grid-template-columns: repeat(auto-fit, minmax(250px, 1fr)); gap: 20px; margin-top: 30px;">\<newline>'' @
     ''    <div style="background: #e8f4fd; padding: 20px; border-radius: 5px; text-align: center;">\<newline>'' @
     ''        <h3>'' @
     [CHR 0xF0, CHR 0x9F, CHR 0x93, CHR 0xB1] @
     '' Clients</h3>\<newline>'' @
     ''        <p>View connected DNS clients and their information</p>\<newline>'' @
     ''        <a href="/clients" style="display: inline-block; background: #3498db; color: white; padding: 10px 20px; text-decoration: none; border-radius: 3px;">View Clients</a>\<newline>'' @
     ''    </div>\<newline>'' @
     ''    \<newline>'' @
     ''    <div style="background: #e8f6f3; padding: 20px; border-radius: 5px; text-align: center;">\<newline>'' @
     ''        <h3>'' @
     [CHR 0xF0, CHR 0x9F, CHR 0x93, CHR 0x8A] @
     '' Statistics</h3>\<newline>'' @
     ''        <p>DNS query statistics and blocked domains</p>\<newline>'' @
     ''        <a href="/stats" style="display: inline-block; background: #27ae60; color: white; padding: 10px 20px; text-decoration: none; border-radius: 3px;">View Stats</a>\<newline>'' @
     ''    </div>\<newline>'' @
     ''    \<newline>'' @
     ''    <div style="background: #fef9e7; padding: 20px; border-radius: 5px; text-align: center;">\<newline>'' @
     ''        <h3>'' @
     [CHR 0xF0, CHR 0x9F, CHR 0x8C, CHR 0x90] @
     '' Upstreams</h3>\<newline>'' @
     ''        <p>DNS upstream performance and response times</p>\<newline>'' @
     ''        <a href="/upstreams" style="display: inline-block; background: #f39c12; color: white; padding: 10px 20px; text-decoration: none; border-radius: 3px;">View Upstreams</a>\<newline>'' @
     ''    </div>\<newline>'' @
     ''</div>''\<close>

definition generateClientsContent :: "int \<Rightarrow> string \<Rightarrow> string" where
  \<open>generateClientsContent totalClients clientsTable =
     ''<div class="header-section">\<newline>'' @
     ''    <h1>DNS Clients</h1>\<newline>'' @
     ''    <p>Total clients: '' @
     showInt totalClients @
     ''</p>\<newline>'' @
     ''</div>\<newline>'' @
     clientsTable\<close>

definition generateStatsContent ::
  "('f \<Rightarrow> string) \<Rightarrow> string \<Rightarrow> int \<Rightarrow> int \<Rightarrow> 'f \<Rightarrow> string \<Rightarrow> string \<Rightarrow> string \<Rightarrow> string" where
  \<open>generateStatsContent fmt6 timeUnits numDNSQueries numBlockedFiltering avgProcessingTime
       topDomainsTable topClientsTable topBlockedTable =
     ''<div class="header-section">\<newline>'' @
     ''    <h1>DNS Statistics</h1>\<newline>'' @
     ''</div>\<newline>'' @
     ''\<newline>'' @
     ''<div class="summary">\<newline>'' @
     ''    <p><strong>Time Period:</strong> Last 24 '' @
     timeUnits @
     ''</p>\<newline>'' @
     ''    <p><strong>Total DNS Queries:</strong> '' @
     showInt numDNSQueries @
     ''</p>\<newline>'' @
     ''    <p><strong>Total Blocked Queries:</strong> '' @
     showInt numBlockedFiltering @
     ''</p>\<newline>'' @
     ''    <p><strong>Average Processing Time:</strong> '' @
     fmt6 avgProcessingTime @
     '' seconds</p>\<newline>'' @
     ''</div>\<newline>'' @
     ''\<newline>'' @
     topDomainsTable @
     ''\<newline>'' @
     topClientsTable @
     ''\<newline>'' @
     topBlockedTable\<close>

definition generateUpstreamsContent :: "string \<Rightarrow> string \<Rightarrow> string" where
  \<open>generateUpstreamsContent topUpstreamsTable topUpstreamsTimeTable =
     ''<div class="header-section">\<newline>'' @
     ''    <h1>DNS Upstreams</h1>\<newline>'' @
     ''</div>\<newline>'' @
     ''\<newline>'' @
     topUpstreamsTable @
     ''\<newline>'' @
     topUpstreamsTimeTable\<close>

subsection \<open>HTTP responses of the echo context\<close>

text \<open>
  \<^verbatim>\<open>c.String(code, body)\<close>, \<^verbatim>\<open>c.Blob(code, contentType, data)\<close> and
  \<^verbatim>\<open>c.Render(code, template, {Title, Content})\<close>.
\<close>

datatype response =
    String nat string
  | Blob nat string string
  | Render nat string string string

definition StatusOK :: nat where "StatusOK = 200"
definition StatusForbidden :: nat where "StatusForbidden = 403"
definition StatusNotFound :: nat where "StatusNotFound = 404"
definition StatusInternalServerError :: nat where "StatusInternalServerError = 500"

subsection \<open>Static files\<close>

text \<open>
  The chain of \<^verbatim>\<open>strings.HasSuffix\<close> tests of \<^verbatim>\<open>serveStaticFile\<close>, in the
  source's order.
\<close>

definition contentType :: "string \<Rightarrow> string" where
  "contentType path =
     (if HasSuffix path ''.png'' then ''image/png''
      else if HasSuffix path ''.jpg'' \<or> HasSuffix path ''.jpeg'' then ''image/jpeg''
      else if HasSuffix path ''.css'' then ''text/css''
      else if HasSuffix path ''.js'' then ''application/javascript''
      else ''application/octet-stream'')"

text \<open>
  \<^verbatim>\<open>assetFS.ReadFile\<close> is the parameter \<open>ReadFile\<close>: \<open>None\<close> is its error, whatever the
  cause. The first component of the result lists the names the function asked the store
  for, so that "the store was not consulted" is a statement about the model.
\<close>

definition serveStaticFile :: "(string \<Rightarrow> string option) \<Rightarrow> string \<Rightarrow> string list \<times> response" where
  "serveStaticFile ReadFile file =
     (let path = (if file = [] then ''index.html'' else file) in
      if Contains path ''..'' then ([], String StatusForbidden ''Forbidden'')
      else
        (case ReadFile (''assets/'' @ path) of
           None \<Rightarrow> ([''assets/'' @ path], String StatusNotFound ''File not found'')
         | Some data \<Rightarrow> ([''assets/'' @ path], Blob StatusOK (contentType path) data)))"

text \<open>
  Modelled from the spec: the asset store that \<^verbatim>\<open>go:embed assets/*\<close> builds from the
  repository's assets directory, which is not among the sources. The spec and the README
  name one file in it, \<^verbatim>\<open>logo_small.png\<close>; its bytes are the parameter \<open>logo\<close>.
  The properties below hold for every store; this one serves for the examples.
\<close>

definition assetFS :: "string \<Rightarrow> string \<Rightarrow> string option" where
  "assetFS logo name = (if name = ''assets/logo_small.png'' then Some logo else None)"

subsection \<open>The page handlers\<close>

text \<open>
  The handlers registered in \<^verbatim>\<open>main\<close>. \<open>rnd k\<close> is the runtime's choice function for
  the \<open>k\<close>-th table a handler renders.
\<close>

definition homeHandler :: response where
  "homeHandler = Render StatusOK ''base.html'' ''Aghamon'' generateHomeContent"

definition clientsHandler :: "'f env \<Rightarrow> Config \<Rightarrow> response" where
  "clientsHandler env config =
     (case snd (fetchClients env config) of
        Inl err \<Rightarrow>
          String StatusInternalServerError (''Error fetching clients: '' @ errorText err)
      | Inr clientsResponse \<Rightarrow>
          (let allClients = [];
               allClients = allClients @ Clients clientsResponse;
               allClients = allClients @ AutoClients clientsResponse;
               htmlTable = generateHTMLTable allClients
           in Render StatusOK ''base.html'' ''DNS Clients - Aghamon''
                (generateClientsContent (int (length allClients)) htmlTable)))"

definition statsHandler ::
  "('f \<Rightarrow> string) \<Rightarrow> (nat \<Rightarrow> nat \<Rightarrow> nat) \<Rightarrow> 'f env \<Rightarrow> Config \<Rightarrow> response" where
  "statsHandler fmt6 rnd env config =
     (case snd (fetchStats env config) of
        Inl err \<Rightarrow>
          String StatusInternalServerError (''Error fetching stats: '' @ errorText err)
      | Inr statsResponse \<Rightarrow>
          (let topDomainsTable =
                 generateStatsTable (rnd 0) ''Top Queried Domains''
                   (TopQueriedDomains statsResponse) ''Count'';
               topClientsTable =
                 generateStatsTable (rnd 1) ''Top Clients'' (TopClients statsResponse) ''Count'';
               topBlockedTable =
                 generateStatsTable (rnd 2) ''Top Blocked Domains''
                   (TopBlockedDomains statsResponse) ''Count''
           in Render StatusOK ''base.html'' ''DNS Statistics - Aghamon''
                (generateStatsContent fmt6
                   (TimeUnits statsResponse)
                   (NumDNSQueries statsResponse)
                   (NumBlockedFiltering statsResponse)
                   (AvgProcessingTime statsResponse)
                   topDomainsTable topClientsTable topBlockedTable)))"

definition upstreamsHandler ::
  "('f \<Rightarrow> string) \<Rightarrow> (nat \<Rightarrow> nat \<Rightarrow> nat) \<Rightarrow> 'f env \<Rightarrow> Config \<Rightarrow> response" where
  "upstreamsHandler fmt6 rnd env config =
     (case snd (fetchStats env config) of
        Inl err \<Rightarrow>
          String StatusInternalServerError (''Error fetching upstreams: '' @ errorText err)
      | Inr statsResponse \<Rightarrow>
          (let topUpstreamsTable =
                 generateStatsTable (rnd 0) ''Top Upstreams by Response Count''
                   (TopUpstreamsResponses statsResponse) ''Count'';
               topUpstreamsTimeTable =
                 generateUpstreamsTable fmt6 (rnd 1) ''Top Upstreams by Average Response Time''
                   (TopUpstreamsAvgTime statsResponse) ''Time''
           in Render StatusOK ''base.html'' ''DNS Upstreams - Aghamon''
                (generateUpstreamsContent topUpstreamsTable topUpstreamsTimeTable)))"

subsection \<open>Start-up\<close>

text \<open>
  \<^verbatim>\<open>main\<close> up to the call of \<^verbatim>\<open>e.Start\<close>. Its inputs are the process environment
  \<open>environ\<close>, the file system \<open>Open\<close>, the embedded template store and whether the
  template text parses (\<^verbatim>\<open>template.Must\<close> panics when it does not).
  \<^verbatim>\<open>e.Logger.Fatal\<close> logs its arguments and exits.
\<close>

datatype startup =
    Fatal string error
  | Panic
  | Listening string Config

definition main ::
  "(string \<rightharpoonup> string) \<Rightarrow> (string \<Rightarrow> error + yamlFile) \<Rightarrow>
   (string \<Rightarrow> error + string) \<Rightarrow> (string \<Rightarrow> bool) \<Rightarrow> startup" where
  "main environ Open templateReadFile parses =
     (case loadConfig Open of
        Inl err \<Rightarrow> Fatal ''Failed to load config:'' err
      | Inr config \<Rightarrow>
          (case templateReadFile ''templates/base.html'' of
             Inl err \<Rightarrow> Fatal ''Failed to read embedded template:'' err
           | Inr templateContent \<Rightarrow>
               if parses templateContent then Listening '':8080'' config else Panic))"

subsection \<open>Notions used to state the properties\<close>

text \<open>
  What the body of the outer loop of a ranked table appends for item \<open>j\<close> (counted from
  0), given the row format and the runtime's choice \<open>r\<close>: nothing for an empty map, one
  row otherwise.
\<close>

definition itemRows :: "(int \<Rightarrow> string \<Rightarrow> 'v \<Rightarrow> string) \<Rightarrow> nat \<Rightarrow> nat \<Rightarrow> 'v gomap \<Rightarrow> string" where
  "itemRows row r j item =
     (case rangeFirst r item of None \<Rightarrow> [] | Some (key, val) \<Rightarrow> row (int j + 1) key val)"

text \<open>
  A decoder for what the encoder writes (RFC 4648, section 4): four characters give 24
  bits, that is three bytes, and a last group padded with \<^verbatim>\<open>=\<close> gives one or two. It
  is used only to show that the encoder loses nothing of its input.
\<close>

definition decodeMap :: "char \<Rightarrow> nat option" where
  "decodeMap c = map_of (zip encodeStd [0..<64]) c"

definition unquad :: "char \<Rightarrow> char \<Rightarrow> char \<Rightarrow> char \<Rightarrow> nat option" where
  "unquad a b c d =
     (case (decodeMap a, decodeMap b, decodeMap c, decodeMap d) of
        (Some w, Some x, Some y, Some z) \<Rightarrow> Some (w * 262144 + x * 4096 + y * 64 + z)
      | _ \<Rightarrow> None)"

fun base64Decode :: "string \<Rightarrow> string option" where
  "base64Decode [] = Some []"
| "base64Decode (a # b # c # d # rest) =
     (if rest = [] \<and> d = CHR ''='' then
        (if c = CHR ''='' then
           map_option (\<lambda>val. [char_of (val div 65536)]) (unquad a b CHR ''A'' CHR ''A'')
         else
           map_option (\<lambda>val. [char_of (val div 65536), char_of (val div 256)])
             (unquad a b c CHR ''A''))
      else
        (case unquad a b c d of
           None \<Rightarrow> None
         | Some val \<Rightarrow>
             map_option
               ((@) [char_of (val div 65536), char_of (val div 256), char_of val])
               (base64Decode rest)))"
| "base64Decode _ = None"

text \<open>A runtime that starts every \<^verbatim>\<open>range\<close> over a map at the same offset \<open>r\<close>.\<close>

definition startAt :: "nat \<Rightarrow> nat \<Rightarrow> nat" where
  "startAt r i = r"

text \<open>
  For the examples, a \<^verbatim>\<open>float64\<close> that is a whole number \<open>n\<close> of millionths, and what
  \<^verbatim>\<open>%.6f\<close> prints for it.
\<close>

definition fmtMicro :: "nat \<Rightarrow> string" where
  "fmtMicro n =
     (let frac = showNat (n mod 1000000)
      in showNat (n div 1000000) @ ''.'' @ replicate (6 - length frac) CHR ''0'' @ frac)"

text \<open>
  One of the checks of \<^verbatim>\<open>url.Parse\<close>, which \<^verbatim>\<open>http.NewRequest\<close> calls: a URL with
  an ASCII control byte in it (below 0x20, or 0x7f) is refused. \<open>rejectCTL\<close> is a parser
  that makes this check and no other.
\<close>

definition stringContainsCTLByte :: "string \<Rightarrow> bool" where
  "stringContainsCTLByte s = list_ex (\<lambda>b. (of_char b :: nat) < 32 \<or> (of_char b :: nat) = 127) s"

definition rejectCTL :: "string \<Rightarrow> error option" where
  "rejectCTL url =
     (if stringContainsCTLByte url then Some (Error ''net/url: invalid control character in URL'')
      else None)"

text \<open>The example scenario: a configuration, an appliance that answers, one that refuses.\<close>

definition exampleConfig :: Config where
  "exampleConfig =
     \<lparr>AdGuard = \<lparr>ServerURL = ''https://dns.example.com'', Username = ''a'', Password = ''b''\<rparr>\<rparr>"

definition exampleClient :: Client where
  "exampleClient =
     \<lparr>IP = ''10.0.0.5'', Name = ''laptop'', Source = ''rdns'',
      WhoisInfo = \<lparr>Country = ''US'', OrgName = ''ISP'', City = ''NYC''\<rparr>\<rparr>"

definition autoClient :: Client where
  "autoClient =
     \<lparr>IP = ''10.0.0.9'', Name = ''phone'', Source = ''arp'',
      WhoisInfo = \<lparr>Country = ''DE'', OrgName = ''Telco'', City = ''Berlin''\<rparr>\<rparr>"

definition exampleClients :: ClientsResponse where
  "exampleClients =
     \<lparr>Clients = [exampleClient], AutoClients = [autoClient], SupportedTags = []\<rparr>"

definition exampleStats :: "nat StatsResponse" where
  "exampleStats =
     \<lparr>TimeUnits = ''hours'',
      TopQueriedDomains = [[(''example.com'', 42)]],
      TopClients = [], TopBlockedDomains = [], TopUpstreamsResponses = [],
      TopUpstreamsAvgTime = [[(''1.1.1.1'', 12345)]],
      DNSQueries = [], BlockedFiltering = [],
      NumDNSQueries = 42, NumBlockedFiltering = 0, AvgProcessingTime = 12345\<rparr>"

definition answering :: "nat env" where
  "answering =
     \<lparr>urlParse = rejectCTL,
      clientDo = (\<lambda>req. Inr (Inr ''{}'')),
      unmarshalClients = (\<lambda>body. Inr exampleClients),
      unmarshalStats = (\<lambda>body. Inr exampleStats)\<rparr>"

definition refusing :: "nat env" where
  "refusing = answering\<lparr>clientDo := (\<lambda>req. Inl (Error ''connection refused''))\<rparr>"

text \<open>A configuration whose server URL is a single line feed.\<close>

definition newlineConfig :: Config where
  "newlineConfig = \<lparr>AdGuard = \<lparr>ServerURL = [CHR 0x0A], Username = ''a'', Password = ''b''\<rparr>\<rparr>"

text \<open>
  A process environment that sets both variables of the README, a file system that holds
  one file, four files (one gives all three keys, one the URL alone, one is the document
  \<^verbatim>\<open>{}\<close>, one is empty), and a
  template store with a template that parses.
\<close>

definition exampleEnviron :: "string \<rightharpoonup> string" where
  "exampleEnviron = [''PORT'' \<mapsto> ''9090'', ''CONFIG_PATH'' \<mapsto> ''/etc/aghamon/config.yaml'']"

definition openOnly :: "string \<Rightarrow> yamlFile \<Rightarrow> string \<Rightarrow> error + yamlFile" where
  "openOnly path file name =
     (if name = path then Inr file
      else Inl (Error (''open '' @ name @ '': no such file or directory'')))"

definition exampleFile :: yamlFile where
  "exampleFile =
     Inr [Mapping [(''adguard'',
            Mapping [(''server_url'', Scalar ''https://dns.example.com''),
                     (''username'', Scalar ''a''), (''password'', Scalar ''b'')])]]"




definition exampleTemplates :: "string \<Rightarrow> error + string" where
  "exampleTemplates name =
     (if name = ''templates/base.html'' then Inr ''{{.Title}}{{.Content}}''
      else Inl (Error (''open '' @ name @ '': file does not exist'')))"

definition anyTemplate :: "string \<Rightarrow> bool" where
  "anyTemplate templateContent = True"

section \<open>Properties\<close>

subsection \<open>The strings package\<close>

lemma HasPrefix_iff: "HasPrefix s pre \<longleftrightarrow> (\<exists>v. s = pre @ v)"
  unfolding HasPrefix_def
  by (metis append_eq_conv_conj append_take_drop_id length_append le_add1)

lemma HasSuffix_iff: "HasSuffix s suf \<longleftrightarrow> (\<exists>u. s = u @ suf)"
  unfolding HasSuffix_def
  by (metis append_eq_conv_conj append_take_drop_id length_append le_add2
      diff_add_inverse2 length_drop)

lemma Contains_iff: "Contains s substr \<longleftrightarrow> (\<exists>u v. s = u @ substr @ v)"
proof (induction s)
  case Nil
  then show ?case by auto
next
  case (Cons c cs)
  show ?case
  proof
    assume "Contains (c # cs) substr"
    then consider "HasPrefix (c # cs) substr" | "Contains cs substr" by auto
    then show "\<exists>u v. c # cs = u @ substr @ v"
    proof cases
      case 1
      then obtain v where "c # cs = substr @ v" by (auto simp: HasPrefix_iff)
      then have "c # cs = [] @ substr @ v" by simp
      then show ?thesis by blast
    next
      case 2
      then obtain u v where "cs = u @ substr @ v" using Cons.IH by auto
      then have "c # cs = (c # u) @ substr @ v" by simp
      then show ?thesis by blast
    qed
  next
    assume "\<exists>u v. c # cs = u @ substr @ v"
    then obtain u v where uv: "c # cs = u @ substr @ v" by auto
    show "Contains (c # cs) substr"
    proof (cases u)
      case Nil
      with uv have "HasPrefix (c # cs) substr" by (auto simp: HasPrefix_iff)
      then show ?thesis by simp
    next
      case (Cons a u')
      with uv have "cs = u' @ substr @ v" by simp
      then have "Contains cs substr" using Cons.IH by blast
      then show ?thesis by simp
    qed
  qed
qed

subsection \<open>Static files\<close>

text \<open>
  C1. A requested file name with \<^verbatim>\<open>..\<close> anywhere in it is answered with 403
  "Forbidden", and the asset store is not asked for anything, whatever it holds.
\<close>

theorem serveStaticFile_dotdot_forbidden:
  assumes "file = u @ ''..'' @ v"
  shows "serveStaticFile ReadFile file = ([], String 403 ''Forbidden'')"
proof -
  from assms have "file \<noteq> []" by auto
  moreover from assms have "Contains file ''..''"
    using Contains_iff by blast
  ultimately show ?thesis
    by (simp add: serveStaticFile_def StatusForbidden_def)
qed

theorem serveStaticFile_dotdot_forbidden_witness:
  "serveStaticFile (assetFS ''PNG'') ''../assets/logo_small.png'' = ([], String 403 ''Forbidden'')
   \<and> assetFS ''PNG'' (''assets/'' @ ''logo_small.png'') = Some ''PNG''"
  using serveStaticFile_dotdot_forbidden [of "''../assets/logo_small.png''" "[]" "''/assets/logo_small.png''" "assetFS ''PNG''"]
  by (simp add: assetFS_def)

text \<open>
  C9. A file name without \<^verbatim>\<open>..\<close> that the store does not hold (an empty name stands
  for \<^verbatim>\<open>index.html\<close>) is answered with 404; \<^verbatim>\<open>logo_small.png\<close>, which the store holds,
  is answered with 200 and content type image/png, and the content type is read off the
  extension by the fixed table, \<^verbatim>\<open>application/octet-stream\<close> when no extension matches.
\<close>

theorem serveStaticFile_missing_and_logo:
  "(\<not> Contains file ''..'' \<and> ReadFile (''assets/'' @ (if file = [] then ''index.html'' else file)) = None
      \<longrightarrow> snd (serveStaticFile ReadFile file) = String 404 ''File not found'')
   \<and> (ReadFile ''assets/logo_small.png'' = Some data
      \<longrightarrow> snd (serveStaticFile ReadFile ''logo_small.png'') = Blob 200 ''image/png'' data)
   \<and> (\<not> Contains file ''..'' \<and> ReadFile (''assets/'' @ (if file = [] then ''index.html'' else file)) = Some data
      \<longrightarrow> snd (serveStaticFile ReadFile file) =
          Blob 200
            (if \<exists>u. file = u @ ''.png'' then ''image/png''
             else if (\<exists>u. file = u @ ''.jpg'') \<or> (\<exists>u. file = u @ ''.jpeg'') then ''image/jpeg''
             else if \<exists>u. file = u @ ''.css'' then ''text/css''
             else if \<exists>u. file = u @ ''.js'' then ''application/javascript''
             else ''application/octet-stream'') data)"
proof (intro conjI impI)
  assume "\<not> Contains file ''..'' \<and> ReadFile (''assets/'' @ (if file = [] then ''index.html'' else file)) = None"
  then show "snd (serveStaticFile ReadFile file) = String 404 ''File not found''"
    by (cases "file = []") (simp_all add: serveStaticFile_def StatusNotFound_def HasPrefix_def)
next
  assume "ReadFile ''assets/logo_small.png'' = Some data"
  then show "snd (serveStaticFile ReadFile ''logo_small.png'') = Blob 200 ''image/png'' data"
    by (simp add: serveStaticFile_def StatusOK_def HasPrefix_def contentType_def HasSuffix_def)
next
  assume a: "\<not> Contains file ''..'' \<and> ReadFile (''assets/'' @ (if file = [] then ''index.html'' else file)) = Some data"
  have html: "\<not> HasSuffix ''index.html'' s" if "s \<in> {''.png'', ''.jpg'', ''.jpeg'', ''.css'', ''.js''}" for s
    using that by (auto simp: HasSuffix_def)
  show "snd (serveStaticFile ReadFile file) =
          Blob 200
            (if \<exists>u. file = u @ ''.png'' then ''image/png''
             else if (\<exists>u. file = u @ ''.jpg'') \<or> (\<exists>u. file = u @ ''.jpeg'') then ''image/jpeg''
             else if \<exists>u. file = u @ ''.css'' then ''text/css''
             else if \<exists>u. file = u @ ''.js'' then ''application/javascript''
             else ''application/octet-stream'') data"
  proof (cases "file = []")
    case True
    with a html show ?thesis
      by (simp add: serveStaticFile_def StatusOK_def HasPrefix_def contentType_def)
  next
    case False
    with a show ?thesis
      by (simp add: serveStaticFile_def StatusOK_def contentType_def HasSuffix_iff)
  qed
qed

theorem serveStaticFile_missing_and_logo_witness:
  "snd (serveStaticFile (assetFS ''PNG'') ''nothing.css'') = String 404 ''File not found''
   \<and> snd (serveStaticFile (assetFS ''PNG'') ''logo_small.png'') = Blob 200 ''image/png'' ''PNG''"
proof -
  have c: "\<not> Contains ''nothing.css'' ''..''" "\<not> Contains ''logo_small.png'' ''..''"
    by (simp_all add: HasPrefix_def)
  have n: "assetFS ''PNG'' (''assets/'' @ (if ''nothing.css'' = [] then ''index.html'' else ''nothing.css'')) = None"
    by (simp add: assetFS_def)
  have l: "assetFS ''PNG'' ''assets/logo_small.png'' = Some ''PNG''"
    by (simp add: assetFS_def)
  have l': "assetFS ''PNG'' (''assets/'' @ (if ''logo_small.png'' = [] then ''index.html'' else ''logo_small.png'')) = Some ''PNG''"
    by (simp add: assetFS_def)
  have "HasSuffix ''logo_small.png'' ''.png''"
    by (simp add: HasSuffix_def)
  then have png: "\<exists>u. ''logo_small.png'' = u @ ''.png''"
    by (simp only: HasSuffix_iff)
  note t = serveStaticFile_missing_and_logo
  from t [of "''nothing.css''" "assetFS ''PNG''" "''PNG''"] c(1) n
  have "snd (serveStaticFile (assetFS ''PNG'') ''nothing.css'') = String 404 ''File not found''"
    by blast
  moreover from t [of "''nothing.css''" "assetFS ''PNG''" "''PNG''"] l
  have "snd (serveStaticFile (assetFS ''PNG'') ''logo_small.png'') = Blob 200 ''image/png'' ''PNG''"
    by blast
  moreover from t [of "''logo_small.png''" "assetFS ''PNG''" "''PNG''"] c(2) l' png
  have "snd (serveStaticFile (assetFS ''PNG'') ''logo_small.png'') = Blob 200 ''image/png'' ''PNG''"
    by simp
  ultimately show ?thesis by blast
qed

subsection \<open>The appliance client\<close>

text \<open>The encoder on the test vectors of RFC 4648, and the length of its output.\<close>

lemma EncodeToString_rfc4648:
  "EncodeToString '''' = ''''"
  "EncodeToString ''f'' = ''Zg==''"
  "EncodeToString ''fo'' = ''Zm8=''"
  "EncodeToString ''foo'' = ''Zm9v''"
  "EncodeToString ''foob'' = ''Zm9vYg==''"
  "EncodeToString ''fooba'' = ''Zm9vYmE=''"
  "EncodeToString ''foobar'' = ''Zm9vYmFy''"
  by (simp_all add: enc_def encodeStd_def)

lemma length_EncodeToString: "length (EncodeToString src) = 4 * ((length src + 2) div 3)"
proof (induction src rule: EncodeToString.induct)
  case (1 a b c src)
  have "(length (a # b # c # src) + 2) div 3 = Suc ((length src + 2) div 3)"
    by simp
  with 1 show ?case by (simp add: Let_def)
qed (simp_all add: Let_def)

text \<open>Decoding undoes encoding, so two credentials never share an encoding.\<close>

lemma distinct_encodeStd: "distinct encodeStd"
  by (simp add: encodeStd_def)

lemma length_encodeStd: "length encodeStd = 64"
  by (simp add: encodeStd_def)

lemma decodeMap_enc: "decodeMap (enc v) = Some (v mod 64)"
proof -
  have "map_of (zip encodeStd [0..<64]) (encodeStd ! (v mod 64)) = Some ([0..<64] ! (v mod 64))"
    by (rule map_of_zip_nth) (simp_all add: length_encodeStd distinct_encodeStd)
  then show ?thesis by (simp add: decodeMap_def enc_def)
qed

lemma enc_not_pad: "enc v \<noteq> CHR ''=''"
proof -
  have "v mod 64 < length encodeStd" by (simp add: length_encodeStd)
  then have "enc v \<in> set encodeStd" unfolding enc_def by (rule nth_mem)
  moreover have "CHR ''='' \<notin> set encodeStd" by (simp add: encodeStd_def)
  ultimately show ?thesis by metis
qed

lemma enc_A: "enc 0 = CHR ''A''" by (simp add: enc_def encodeStd_def)

lemma unquad_enc:
  "unquad (enc w) (enc x) (enc y) (enc z) =
     Some (w mod 64 * 262144 + x mod 64 * 4096 + y mod 64 * 64 + z mod 64)"
  by (simp add: unquad_def decodeMap_enc)

lemma requad:
  assumes "val < 16777216"
  shows "(val div 262144) mod 64 * 262144 + (val div 4096) mod 64 * 4096 + (val div 64) mod 64 * 64 + val mod 64 = (val::nat)"
proof -
  have a: "val mod 4096 = 64 * (val div 64 mod 64) + val mod 64"
    using mod_mult2_eq [of val 64 64] by simp
  have b: "val mod 262144 = 4096 * (val div 4096 mod 64) + val mod 4096"
    using mod_mult2_eq [of val 4096 64] by simp
  have c: "val mod 16777216 = 262144 * (val div 262144 mod 64) + val mod 262144"
    using mod_mult2_eq [of val 262144 64] by simp
  from assms have "val mod 16777216 = val" by simp
  with a b c show ?thesis by simp
qed

lemma bytes_of_val:
  fixes x y z :: nat
  assumes "y < 256" "z < 256"
  shows "(x * 65536 + y * 256 + z) div 65536 = x"
    and "(x * 65536 + y * 256 + z) div 256 = x * 256 + y"
  using assms by simp_all

lemma val_bound:
  fixes x y z :: nat
  assumes "x < 256" "y < 256" "z < 256"
  shows "x * 65536 + y * 256 + z < 16777216"
  using assms by simp


lemma char_of_low_byte: "char_of (x * 256 + (of_char c :: nat)) = c"
proof -
  have "char_of (x * 256 + (of_char c :: nat)) = char_of ((x * 256 + (of_char c :: nat)) mod 256)"
    by (simp only: char_of_mod_256)
  also have "(x * 256 + (of_char c :: nat)) mod 256 = of_char c"
    by simp
  finally show ?thesis by simp
qed

lemma unquad_val:
  assumes "val < 16777216"
  shows "unquad (enc (val div 262144)) (enc (val div 4096)) (enc (val div 64)) (enc val) = Some val"
  by (simp only: unquad_enc requad [OF assms])

lemma base64Decode_EncodeToString: "base64Decode (EncodeToString src) = Some src"
proof (induction src rule: EncodeToString.induct)
  case (1 a b c src)
  define val :: nat where "val = of_char a * 65536 + of_char b * 256 + of_char c"
  have bound: "val < 16777216"
    unfolding val_def by (rule val_bound) simp_all
  have "val = (of_char a * 256 + of_char b) * 256 + of_char c"
    by (simp add: val_def)
  then have low: "char_of val = c"
    by (simp only: char_of_low_byte)
  have bytes: "char_of (val div 65536) = a" "char_of (val div 256) = b"
    unfolding val_def by (simp_all add: bytes_of_val char_of_low_byte)
  have enc: "EncodeToString (a # b # c # src) =
      enc (val div 262144) # enc (val div 4096) # enc (val div 64) # enc val # EncodeToString src"
    by (simp add: val_def Let_def)
  show ?case
    unfolding enc
    by (simp add: enc_not_pad unquad_val [OF bound] bytes low "1.IH")
next
  case (2 a b)
  define val :: nat where "val = of_char a * 65536 + of_char b * 256"
  have bound: "val < 16777216"
    using val_bound [of "of_char a" "of_char b" 0] by (simp add: val_def)
  have "val = 64 * (of_char a * 1024 + of_char b * 4)"
    by (simp add: val_def)
  then have low: "val mod 64 = 0"
    by (simp only: mod_mult_self1_is_0)
  have "val div 256 = of_char a * 256 + of_char b"
    by (simp add: val_def)
  then have b: "char_of (val div 256) = b"
    by (simp only: char_of_low_byte)
  have "val div 65536 = of_char a"
    by (simp add: val_def)
  then have bytes: "char_of (val div 65536) = a" "char_of (val div 256) = b"
    using b by simp_all
  have "enc val = CHR ''A''"
    using low by (simp add: enc_def encodeStd_def)
  then have "unquad (enc (val div 262144)) (enc (val div 4096)) (enc (val div 64)) CHR ''A'' = Some val"
    using unquad_val [OF bound] by simp
  then show ?case
    by (simp add: val_def [symmetric] Let_def enc_not_pad bytes)
next
  case (3 a)
  define val :: nat where "val = of_char a * 65536"
  have bound: "val < 16777216"
    using val_bound [of "of_char a" 0 0] by (simp add: val_def)
  have "val = 64 * (of_char a * 1024)" and "val div 64 = 64 * (of_char a * 16)"
    by (simp_all add: val_def)
  then have low: "val mod 64 = 0" "val div 64 mod 64 = 0"
    by (simp_all only: mod_mult_self1_is_0)
  have bytes: "char_of (val div 65536) = a"
    by (simp add: val_def)
  have "enc val = CHR ''A''" "enc (val div 64) = CHR ''A''"
    using low by (simp_all add: enc_def encodeStd_def)
  then have "unquad (enc (val div 262144)) (enc (val div 4096)) CHR ''A'' CHR ''A'' = Some val"
    using unquad_val [OF bound] by simp
  then show ?case
    by (simp add: val_def [symmetric] Let_def enc_not_pad bytes)
next
  case 4
  show ?case by simp
qed

lemma EncodeToString_inj: "EncodeToString s = EncodeToString t \<Longrightarrow> s = t"
  by (metis base64Decode_EncodeToString option.inject)

text \<open>Both fetch functions, with the request they build written out.\<close>

lemma fetchClients_request:
  "fetchClients env config =
     (case urlParse env (ServerURL (AdGuard config) @ ''/control/clients'') of
        Some err \<Rightarrow> ([], Inl err)
      | None \<Rightarrow>
         (let req = \<lparr>Method = ''GET'', URL = ServerURL (AdGuard config) @ ''/control/clients'',
                     Header = [''Authorization'' \<mapsto> ''Basic '' @ EncodeToString (Username (AdGuard config) @ '':'' @ Password (AdGuard config)),
                               ''Accept'' \<mapsto> ''application/json'',
                               ''Referer'' \<mapsto> ServerURL (AdGuard config) @ ''/'']\<rparr>
          in ([req], case clientDo env req of
                 Inl err \<Rightarrow> Inl err
               | Inr (Inl err) \<Rightarrow> Inl err
               | Inr (Inr body) \<Rightarrow> unmarshalClients env body)))"
  by (simp add: fetchClients_def NewRequest_def Set_def getBasicAuth_def Let_def
           split: option.split sum.split)

lemma fetchStats_request:
  "fetchStats env config =
     (case urlParse env (ServerURL (AdGuard config) @ ''/control/stats'') of
        Some err \<Rightarrow> ([], Inl err)
      | None \<Rightarrow>
         (let req = \<lparr>Method = ''GET'', URL = ServerURL (AdGuard config) @ ''/control/stats'',
                     Header = [''Authorization'' \<mapsto> ''Basic '' @ EncodeToString (Username (AdGuard config) @ '':'' @ Password (AdGuard config)),
                               ''Accept'' \<mapsto> ''application/json'',
                               ''Referer'' \<mapsto> ServerURL (AdGuard config) @ ''/'']\<rparr>
          in ([req], case clientDo env req of
                 Inl err \<Rightarrow> Inl err
               | Inr (Inl err) \<Rightarrow> Inl err
               | Inr (Inr body) \<Rightarrow> unmarshalStats env body)))"
  by (simp add: fetchStats_def NewRequest_def Set_def getBasicAuth_def Let_def
           split: option.split sum.split)

text \<open>
  A fetch fails with \<open>err\<close> exactly when the URL is refused with \<open>err\<close>, or the request
  was sent and the transport, the reading of the body or the JSON decoder failed with
  \<open>err\<close>: the error is handed on as it is.
\<close>

lemma fetchClients_error_iff:
  "snd (fetchClients env config) = Inl err \<longleftrightarrow>
     urlParse env (ServerURL (AdGuard config) @ ''/control/clients'') = Some err \<or>
     (urlParse env (ServerURL (AdGuard config) @ ''/control/clients'') = None \<and>
      (\<exists>req. fst (fetchClients env config) = [req] \<and>
         (clientDo env req = Inl err \<or> clientDo env req = Inr (Inl err) \<or>
          (\<exists>body. clientDo env req = Inr (Inr body) \<and> unmarshalClients env body = Inl err))))"
  by (auto simp add: fetchClients_request Let_def split: option.splits sum.splits)

lemma fetchStats_error_iff:
  "snd (fetchStats env config) = Inl err \<longleftrightarrow>
     urlParse env (ServerURL (AdGuard config) @ ''/control/stats'') = Some err \<or>
     (urlParse env (ServerURL (AdGuard config) @ ''/control/stats'') = None \<and>
      (\<exists>req. fst (fetchStats env config) = [req] \<and>
         (clientDo env req = Inl err \<or> clientDo env req = Inr (Inl err) \<or>
          (\<exists>body. clientDo env req = Inr (Inr body) \<and> unmarshalStats env body = Inl err))))"
  by (auto simp add: fetchStats_request Let_def split: option.splits sum.splits)

lemma fetch_rejected_url:
  "urlParse env (ServerURL (AdGuard config) @ ''/control/clients'') = Some err \<Longrightarrow>
     fetchClients env config = ([], Inl err)"
  "urlParse env (ServerURL (AdGuard config) @ ''/control/stats'') = Some err \<Longrightarrow>
     fetchStats env config = ([], Inl err)"
  by (simp_all add: fetchClients_request fetchStats_request)

text \<open>
  C3, as amended. When \<^verbatim>\<open>http.NewRequest\<close> accepts the URL, \<^verbatim>\<open>fetchClients\<close> hands
  exactly one request to the HTTP client: a GET of the server URL followed by
  \<^verbatim>\<open>/control/clients\<close>, with \<^verbatim>\<open>Authorization\<close> equal to "Basic " and the base64
  encoding of \<^verbatim>\<open>username:password\<close>, \<^verbatim>\<open>Accept\<close> equal to \<^verbatim>\<open>application/json\<close> and
  \<^verbatim>\<open>Referer\<close> equal to the server URL followed by a slash. \<^verbatim>\<open>fetchStats\<close> does the
  same with \<^verbatim>\<open>/control/stats\<close>.
\<close>

theorem fetch_requests:
  "(urlParse env (ServerURL (AdGuard config) @ ''/control/clients'') = None \<longrightarrow>
      (\<exists>req. fst (fetchClients env config) = [req] \<and>
         Method req = ''GET'' \<and>
         URL req = ServerURL (AdGuard config) @ ''/control/clients'' \<and>
         Header req ''Authorization'' =
           Some (''Basic '' @ EncodeToString (Username (AdGuard config) @ '':'' @ Password (AdGuard config))) \<and>
         Header req ''Accept'' = Some ''application/json'' \<and>
         Header req ''Referer'' = Some (ServerURL (AdGuard config) @ ''/''))) \<and>
   (urlParse env (ServerURL (AdGuard config) @ ''/control/stats'') = None \<longrightarrow>
      (\<exists>req. fst (fetchStats env config) = [req] \<and>
         Method req = ''GET'' \<and>
         URL req = ServerURL (AdGuard config) @ ''/control/stats'' \<and>
         Header req ''Authorization'' =
           Some (''Basic '' @ EncodeToString (Username (AdGuard config) @ '':'' @ Password (AdGuard config))) \<and>
         Header req ''Accept'' = Some ''application/json'' \<and>
         Header req ''Referer'' = Some (ServerURL (AdGuard config) @ ''/'')))"
  by (simp add: fetchClients_request fetchStats_request Let_def)

theorem fetch_requests_witness:
  "(\<exists>req. fst (fetchClients answering exampleConfig) = [req] \<and>
         Method req = ''GET'' \<and>
         URL req = ''https://dns.example.com/control/clients'' \<and>
         Header req ''Authorization'' = Some ''Basic YTpi'' \<and>
         Header req ''Accept'' = Some ''application/json'' \<and>
         Header req ''Referer'' = Some ''https://dns.example.com/'') \<and>
   (\<exists>req. fst (fetchStats answering exampleConfig) = [req] \<and>
         Method req = ''GET'' \<and>
         URL req = ''https://dns.example.com/control/stats'' \<and>
         Header req ''Authorization'' = Some ''Basic YTpi'' \<and>
         Header req ''Accept'' = Some ''application/json'' \<and>
         Header req ''Referer'' = Some ''https://dns.example.com/'')"
proof -
  have c: "urlParse answering (ServerURL (AdGuard exampleConfig) @ ''/control/clients'') = None"
    by (simp add: answering_def rejectCTL_def exampleConfig_def stringContainsCTLByte_def)
  have s: "urlParse answering (ServerURL (AdGuard exampleConfig) @ ''/control/stats'') = None"
    by (simp add: answering_def rejectCTL_def exampleConfig_def stringContainsCTLByte_def)
  have b: "EncodeToString (Username (AdGuard exampleConfig) @ '':'' @ Password (AdGuard exampleConfig)) = ''YTpi''"
    by (simp add: exampleConfig_def enc_def encodeStd_def)
  have u: "ServerURL (AdGuard exampleConfig) = ''https://dns.example.com''"
    by (simp add: exampleConfig_def)
  from fetch_requests [of answering exampleConfig] c s
  show ?thesis unfolding b u by simp
qed

text \<open>
  The claim as stated, for every configuration, fails: a server URL with a line feed in
  it is refused by \<^verbatim>\<open>http.NewRequest\<close>, and neither function sends anything.
\<close>

theorem fetch_no_request_on_refused_url:
  "fst (fetchClients answering newlineConfig) = [] \<and> fst (fetchStats answering newlineConfig) = []"
  by (simp add: fetchClients_request fetchStats_request answering_def newlineConfig_def
        rejectCTL_def stringContainsCTLByte_def)

subsection \<open>The page handlers on a failing fetch\<close>

text \<open>
  C2. When the fetch of a page fails with an error, the handlers of \<^verbatim>\<open>/clients\<close>,
  \<^verbatim>\<open>/stats\<close> and \<^verbatim>\<open>/upstreams\<close> return (they are total functions, and the result is
  a response, not an exit of the process) the status 500 with a body that ends in the
  text of that error.
\<close>

theorem handlers_fetch_error:
  "(snd (fetchClients env config) = Inl err \<longrightarrow>
      clientsHandler env config = String 500 (''Error fetching clients: '' @ errorText err)) \<and>
   (snd (fetchStats env config) = Inl err \<longrightarrow>
      statsHandler fmt6 rnd env config = String 500 (''Error fetching stats: '' @ errorText err)) \<and>
   (snd (fetchStats env config) = Inl err \<longrightarrow>
      upstreamsHandler fmt6 rnd env config =
        String 500 (''Error fetching upstreams: '' @ errorText err))"
  by (simp add: clientsHandler_def statsHandler_def upstreamsHandler_def
        StatusInternalServerError_def)

theorem handlers_fetch_error_witness:
  "clientsHandler refusing exampleConfig = String 500 ''Error fetching clients: connection refused''
   \<and> statsHandler fmtMicro startAt refusing exampleConfig =
       String 500 ''Error fetching stats: connection refused''
   \<and> upstreamsHandler fmtMicro startAt refusing exampleConfig =
       String 500 ''Error fetching upstreams: connection refused''"
proof -
  have c: "snd (fetchClients refusing exampleConfig) = Inl (Error ''connection refused'')"
    by (simp add: fetchClients_request refusing_def answering_def rejectCTL_def
          exampleConfig_def stringContainsCTLByte_def)
  have s: "snd (fetchStats refusing exampleConfig) = Inl (Error ''connection refused'')"
    by (simp add: fetchStats_request refusing_def answering_def rejectCTL_def
          exampleConfig_def stringContainsCTLByte_def)
  from handlers_fetch_error [of refusing exampleConfig "Error ''connection refused''" fmtMicro startAt] c s
  show ?thesis by simp
qed

subsection \<open>The clients table\<close>

lemma foldl_append_rows: "foldl (\<lambda>sb x. sb @ f x) sb xs = sb @ concat (map f xs)"
  by (induction xs arbitrary: sb) simp_all

lemma generateHTMLTable_rows:
  "generateHTMLTable clients = clientsTableHead @ concat (map clientRow clients) @ tableFoot"
  by (simp add: generateHTMLTable_def foldl_append_rows)

text \<open>
  C4. When the fetch succeeds, the \<^verbatim>\<open>/clients\<close> page is the header with the number of
  clients followed by the table of \<^verbatim>\<open>clients\<close> followed by \<^verbatim>\<open>auto_clients\<close>; and the
  table of a list of \<open>N\<close> clients is the head, then \<open>N\<close> rows, the \<open>k\<close>-th being the
  \<^verbatim>\<open><tr>\<close> element with the six fields of the \<open>k\<close>-th client, then the foot: nothing is
  dropped, merged or reordered. The markup is written out, so that the statement does not
  lean on the definitions of the row and of the page.
\<close>

theorem clients_page_rows:
  \<open>(snd (fetchClients env config) = Inr clientsResponse \<longrightarrow>
      clientsHandler env config =
        Render 200 ''base.html'' ''DNS Clients - Aghamon''
         (
          ''<div class="header-section">\<newline>'' @
          ''    <h1>DNS Clients</h1>\<newline>'' @
          ''    <p>Total clients: '' @
          showInt (int (length (Clients clientsResponse) + length (AutoClients clientsResponse))) @
          ''</p>\<newline>'' @
          ''</div>\<newline>'' @
          generateHTMLTable (Clients clientsResponse @ AutoClients clientsResponse))) \<and>
   generateHTMLTable clients =
       ''<div class="table-container"><div class="mobile-table-info">Swipe horizontally to view all columns</div><table>\<newline>'' @
       ''    <thead>\<newline>'' @
       ''      <tr>\<newline>'' @
       ''        <th>IP Address</th>\<newline>'' @
       ''        <th>Name</th>\<newline>'' @
       ''        <th>Source</th>\<newline>'' @
       ''        <th>Country</th>\<newline>'' @
       ''        <th>Organization</th>\<newline>'' @
       ''        <th>City</th>\<newline>'' @
       ''      </tr>\<newline>'' @
       ''    </thead>\<newline>'' @
       ''    <tbody>'' @
       concat (map (\<lambda>client.
                 ''\<newline>'' @
                 ''      <tr>\<newline>'' @
                 ''        <td>'' @
                 IP client @
                 ''</td>\<newline>'' @
                 ''        <td>'' @
                 Name client @
                 ''</td>\<newline>'' @
                 ''        <td>'' @
                 Source client @
                 ''</td>\<newline>'' @
                 ''        <td>'' @
                 Country (WhoisInfo client) @
                 ''</td>\<newline>'' @
                 ''        <td>'' @
                 OrgName (WhoisInfo client) @
                 ''</td>\<newline>'' @
                 ''        <td>'' @
                 City (WhoisInfo client) @
                 ''</td>\<newline>'' @
                 ''      </tr>'') clients) @
       ''</tbody></table></div>''\<close>
proof
  show "snd (fetchClients env config) = Inr clientsResponse \<longrightarrow>
      clientsHandler env config =
        Render 200 ''base.html'' ''DNS Clients - Aghamon''
          (''<div class=\"header-section\">\<newline>'' @
           ''    <h1>DNS Clients</h1>\<newline>'' @
           ''    <p>Total clients: '' @
           showInt (int (length (Clients clientsResponse) + length (AutoClients clientsResponse))) @
           ''</p>\<newline>'' @
           ''</div>\<newline>'' @
           generateHTMLTable (Clients clientsResponse @ AutoClients clientsResponse))"
    by (simp add: clientsHandler_def StatusOK_def generateClientsContent_def)
  have r: "clientRow = (\<lambda>client.
                 ''\<newline>'' @
                 ''      <tr>\<newline>'' @
                 ''        <td>'' @
                 IP client @
                 ''</td>\<newline>'' @
                 ''        <td>'' @
                 Name client @
                 ''</td>\<newline>'' @
                 ''        <td>'' @
                 Source client @
                 ''</td>\<newline>'' @
                 ''        <td>'' @
                 Country (WhoisInfo client) @
                 ''</td>\<newline>'' @
                 ''        <td>'' @
                 OrgName (WhoisInfo client) @
                 ''</td>\<newline>'' @
                 ''        <td>'' @
                 City (WhoisInfo client) @
                 ''</td>\<newline>'' @
                 ''      </tr>'')"
    by (rule ext) (simp add: clientRow_def)
  show "generateHTMLTable clients =
       ''<div class=\"table-container\"><div class=\"mobile-table-info\">Swipe horizontally to view all columns</div><table>\<newline>'' @
       ''    <thead>\<newline>'' @
       ''      <tr>\<newline>'' @
       ''        <th>IP Address</th>\<newline>'' @
       ''        <th>Name</th>\<newline>'' @
       ''        <th>Source</th>\<newline>'' @
       ''        <th>Country</th>\<newline>'' @
       ''        <th>Organization</th>\<newline>'' @
       ''        <th>City</th>\<newline>'' @
       ''      </tr>\<newline>'' @
       ''    </thead>\<newline>'' @
       ''    <tbody>'' @
       concat (map (\<lambda>client.
                 ''\<newline>'' @
                 ''      <tr>\<newline>'' @
                 ''        <td>'' @
                 IP client @
                 ''</td>\<newline>'' @
                 ''        <td>'' @
                 Name client @
                 ''</td>\<newline>'' @
                 ''        <td>'' @
                 Source client @
                 ''</td>\<newline>'' @
                 ''        <td>'' @
                 Country (WhoisInfo client) @
                 ''</td>\<newline>'' @
                 ''        <td>'' @
                 OrgName (WhoisInfo client) @
                 ''</td>\<newline>'' @
                 ''        <td>'' @
                 City (WhoisInfo client) @
                 ''</td>\<newline>'' @
                 ''      </tr>'') clients) @
       ''</tbody></table></div>''"
    by (simp add: generateHTMLTable_rows r clientsTableHead_def tableFoot_def)
qed

lemma all_less_two: "(\<forall>k<Suc (Suc 0). P k) \<longleftrightarrow> P 0 \<and> P (Suc 0)"
  by (auto simp add: less_Suc_eq)

lemma concat_two: "length rows = 2 \<Longrightarrow> concat rows = rows ! 0 @ rows ! 1"
proof -
  assume "length rows = 2"
  then obtain a b where "rows = [a, b]"
    by (cases rows; cases "tl rows") auto
  then show ?thesis by simp
qed

theorem clients_page_rows_witness:
  \<open>clientsHandler answering exampleConfig =
     Render 200 ''base.html'' ''DNS Clients - Aghamon''
      (
       ''<div class="header-section">\<newline>'' @
       ''    <h1>DNS Clients</h1>\<newline>'' @
       ''    <p>Total clients: 2</p>\<newline>'' @
       ''</div>\<newline>'' @
       ''<div class="table-container"><div class="mobile-table-info">Swipe horizontally to view all columns</div><table>\<newline>'' @
       ''    <thead>\<newline>'' @
       ''      <tr>\<newline>'' @
       ''        <th>IP Address</th>\<newline>'' @
       ''        <th>Name</th>\<newline>'' @
       ''        <th>Source</th>\<newline>'' @
       ''        <th>Country</th>\<newline>'' @
       ''        <th>Organization</th>\<newline>'' @
       ''        <th>City</th>\<newline>'' @
       ''      </tr>\<newline>'' @
       ''    </thead>\<newline>'' @
       ''    <tbody>\<newline>'' @
       ''      <tr>\<newline>'' @
       ''        <td>10.0.0.5</td>\<newline>'' @
       ''        <td>laptop</td>\<newline>'' @
       ''        <td>rdns</td>\<newline>'' @
       ''        <td>US</td>\<newline>'' @
       ''        <td>ISP</td>\<newline>'' @
       ''        <td>NYC</td>\<newline>'' @
       ''      </tr>\<newline>'' @
       ''      <tr>\<newline>'' @
       ''        <td>10.0.0.9</td>\<newline>'' @
       ''        <td>phone</td>\<newline>'' @
       ''        <td>arp</td>\<newline>'' @
       ''        <td>DE</td>\<newline>'' @
       ''        <td>Telco</td>\<newline>'' @
       ''        <td>Berlin</td>\<newline>'' @
       ''      </tr></tbody></table></div>'')\<close>
proof -
  have p: "urlParse answering (ServerURL (AdGuard exampleConfig) @ ''/control/clients'') = None"
    by (simp add: answering_def rejectCTL_def exampleConfig_def stringContainsCTLByte_def)
  have c: "snd (fetchClients answering exampleConfig) = Inr exampleClients"
    by (simp add: fetchClients_request p) (simp add: answering_def)
  have n: "showInt (int (length (Clients exampleClients) + length (AutoClients exampleClients))) = ''2''"
    by (simp add: exampleClients_def showInt_def showNat.simps)
  note t = clients_page_rows [of answering exampleConfig exampleClients
      "Clients exampleClients @ AutoClients exampleClients"]
  from t c have h: "clientsHandler answering exampleConfig =
      Render 200 ''base.html'' ''DNS Clients - Aghamon''
        (''<div class=\"header-section\">\<newline>'' @
         ''    <h1>DNS Clients</h1>\<newline>'' @
         ''    <p>Total clients: '' @
         showInt (int (length (Clients exampleClients) + length (AutoClients exampleClients))) @
         ''</p>\<newline>'' @
         ''</div>\<newline>'' @
         generateHTMLTable (Clients exampleClients @ AutoClients exampleClients))"
    by blast
  from t have g: "generateHTMLTable (Clients exampleClients @ AutoClients exampleClients) =
      ''<div class=\"table-container\"><div class=\"mobile-table-info\">Swipe horizontally to view all columns</div><table>\<newline>'' @
      ''    <thead>\<newline>'' @
      ''      <tr>\<newline>'' @
      ''        <th>IP Address</th>\<newline>'' @
      ''        <th>Name</th>\<newline>'' @
      ''        <th>Source</th>\<newline>'' @
      ''        <th>Country</th>\<newline>'' @
      ''        <th>Organization</th>\<newline>'' @
      ''        <th>City</th>\<newline>'' @
      ''      </tr>\<newline>'' @
      ''    </thead>\<newline>'' @
      ''    <tbody>\<newline>'' @
      ''      <tr>\<newline>'' @
      ''        <td>10.0.0.5</td>\<newline>'' @
      ''        <td>laptop</td>\<newline>'' @
      ''        <td>rdns</td>\<newline>'' @
      ''        <td>US</td>\<newline>'' @
      ''        <td>ISP</td>\<newline>'' @
      ''        <td>NYC</td>\<newline>'' @
      ''      </tr>\<newline>'' @
      ''      <tr>\<newline>'' @
      ''        <td>10.0.0.9</td>\<newline>'' @
      ''        <td>phone</td>\<newline>'' @
      ''        <td>arp</td>\<newline>'' @
      ''        <td>DE</td>\<newline>'' @
      ''        <td>Telco</td>\<newline>'' @
      ''        <td>Berlin</td>\<newline>'' @
      ''      </tr></tbody></table></div>''"
    by (simp add: exampleClients_def exampleClient_def autoClient_def)
  show ?thesis unfolding h n g by simp
qed

subsection \<open>The ranked tables\<close>

text \<open>What a \<^verbatim>\<open>range\<close> with a \<^verbatim>\<open>break\<close> visits: no entry of an empty map, one entry otherwise.\<close>

lemma rangeFirst_cases:
  "(item = [] \<and> rangeFirst r item = None) \<or> (\<exists>e \<in> set item. rangeFirst r item = Some e)"
proof (cases item)
  case Nil
  then show ?thesis by simp
next
  case (Cons e es)
  have "r mod length (e # es) < length (e # es)" by simp
  then have "(e # es) ! (r mod length (e # es)) \<in> set (e # es)"
    by (rule nth_mem)
  with Cons show ?thesis by simp
qed

lemma rangeFirst_single: "length item \<le> 1 \<Longrightarrow> rangeFirst r item = rangeFirst r' item"
  by (cases item) auto

lemma itemRows_cases:
  "(item = [] \<and> itemRows row r j item = []) \<or> (\<exists>(key, val) \<in> set item. itemRows row r j item = row (int j + 1) key val)"
  using rangeFirst_cases [of item r] by (auto simp add: itemRows_def)

lemma itemRows_single:
  "length item \<le> 1 \<Longrightarrow> itemRows row r j item = itemRows row r' j item"
  using rangeFirst_single [of item r r'] by (simp add: itemRows_def)

lemma itemRows_nonempty:
  assumes "item \<noteq> []"
  shows "the (rangeFirst r item) \<in> set item"
    and "itemRows row r j item = row (int j + 1) (fst (the (rangeFirst r item))) (snd (the (rangeFirst r item)))"
  using assms rangeFirst_cases [of item r] by (auto simp add: itemRows_def split: prod.splits)

text \<open>Both loops append, item after item, what \<open>itemRows\<close> says.\<close>

lemma statsLoop_append:
  "statsLoop rnd i data sb =
     sb @ concat (map (\<lambda>k. itemRows statsRow (rnd (i + k)) (i + k) (data ! k)) [0..<length data])"
proof (induction data arbitrary: i sb)
  case Nil
  then show ?case by simp
next
  case (Cons item data)
  have "map (\<lambda>k. itemRows statsRow (rnd (i + k)) (i + k) ((item # data) ! k)) [0..<length (item # data)]
      = itemRows statsRow (rnd i) i item # map (\<lambda>k. itemRows statsRow (rnd (i + 1 + k)) (i + 1 + k) (data ! k)) [0..<length data]"
    unfolding length_Cons map_upt_Suc by (simp)
  then show ?case
    by (simp add: Cons.IH itemRows_def split: option.split del: upt_Suc)
qed

lemma upstreamsLoop_append:
  "upstreamsLoop fmt6 rnd i data sb =
     sb @ concat (map (\<lambda>k. itemRows (upstreamsRow fmt6) (rnd (i + k)) (i + k) (data ! k)) [0..<length data])"
proof (induction data arbitrary: i sb)
  case Nil
  then show ?case by simp
next
  case (Cons item data)
  have "map (\<lambda>k. itemRows (upstreamsRow fmt6) (rnd (i + k)) (i + k) ((item # data) ! k)) [0..<length (item # data)]
      = itemRows (upstreamsRow fmt6) (rnd i) i item # map (\<lambda>k. itemRows (upstreamsRow fmt6) (rnd (i + 1 + k)) (i + 1 + k) (data ! k)) [0..<length data]"
    unfolding length_Cons map_upt_Suc by (simp)
  then show ?case
    by (simp add: Cons.IH itemRows_def split: option.split del: upt_Suc)
qed

lemma generateStatsTable_items:
  "generateStatsTable rnd title data valueLabel =
     (''<h3>'' @ title @ ''</h3>'') @ statsTableHead valueLabel @
     concat (map (\<lambda>k. itemRows statsRow (rnd k) k (data ! k)) [0..<length data]) @ tableFoot"
  by (simp add: generateStatsTable_def statsLoop_append)

lemma generateUpstreamsTable_items:
  "generateUpstreamsTable fmt6 rnd title data valueLabel =
     (''<h3>'' @ title @ ''</h3>'') @ upstreamsTableHead valueLabel @
     concat (map (\<lambda>k. itemRows (upstreamsRow fmt6) (rnd k) k (data ! k)) [0..<length data]) @ tableFoot"
  by (simp add: generateUpstreamsTable_def upstreamsLoop_append)

text \<open>
  C5, as amended. When no item of the list is an empty map, the ranked table (and the
  upstream-time table) has one row per item and the \<open>k\<close>-th row shows the index \<open>k\<close>,
  counted from 1, whatever the keys are: the row is built from \<open>k\<close> and one entry of the
  \<open>k\<close>-th item.
\<close>

theorem ranked_tables_sequential_indices:
  "((\<forall>item \<in> set data. item \<noteq> []) \<longrightarrow>
      (\<exists>entries. length entries = length data \<and>
         (\<forall>k<length data. entries ! k \<in> set (data ! k)) \<and>
         generateStatsTable rnd title data valueLabel =
           (''<h3>'' @ title @ ''</h3>'') @ statsTableHead valueLabel @
           concat (map (\<lambda>k. statsRow (int k + 1) (fst (entries ! k)) (snd (entries ! k)))
                     [0..<length data]) @
           tableFoot)) \<and>
   ((\<forall>item \<in> set tdata. item \<noteq> []) \<longrightarrow>
      (\<exists>entries. length entries = length tdata \<and>
         (\<forall>k<length tdata. entries ! k \<in> set (tdata ! k)) \<and>
         generateUpstreamsTable fmt6 rnd title tdata valueLabel =
           (''<h3>'' @ title @ ''</h3>'') @ upstreamsTableHead valueLabel @
           concat (map (\<lambda>k. upstreamsRow fmt6 (int k + 1) (fst (entries ! k)) (snd (entries ! k)))
                     [0..<length tdata]) @
           tableFoot))"
proof (intro conjI impI)
  assume a: "\<forall>item \<in> set data. item \<noteq> []"
  let ?entries = "map (\<lambda>k. the (rangeFirst (rnd k) (data ! k))) [0..<length data]"
  have ne: "data ! k \<noteq> []" if "k < length data" for k
    using a that by simp
  have "map (\<lambda>k. itemRows statsRow (rnd k) k (data ! k)) [0..<length data]
      = map (\<lambda>k. statsRow (int k + 1) (fst (?entries ! k)) (snd (?entries ! k))) [0..<length data]"
    by (rule map_cong [OF refl]) (simp add: itemRows_nonempty(2) [OF ne])
  then have "generateStatsTable rnd title data valueLabel =
           (''<h3>'' @ title @ ''</h3>'') @ statsTableHead valueLabel @
           concat (map (\<lambda>k. statsRow (int k + 1) (fst (?entries ! k)) (snd (?entries ! k)))
                     [0..<length data]) @
           tableFoot"
    by (simp only: generateStatsTable_items)
  moreover have "length ?entries = length data" by simp
  moreover have "\<forall>k<length data. ?entries ! k \<in> set (data ! k)"
    by (simp add: itemRows_nonempty(1) [OF ne])
  ultimately show "\<exists>entries. length entries = length data \<and>
         (\<forall>k<length data. entries ! k \<in> set (data ! k)) \<and>
         generateStatsTable rnd title data valueLabel =
           (''<h3>'' @ title @ ''</h3>'') @ statsTableHead valueLabel @
           concat (map (\<lambda>k. statsRow (int k + 1) (fst (entries ! k)) (snd (entries ! k)))
                     [0..<length data]) @
           tableFoot"
    by blast
next
  assume a: "\<forall>item \<in> set tdata. item \<noteq> []"
  let ?entries = "map (\<lambda>k. the (rangeFirst (rnd k) (tdata ! k))) [0..<length tdata]"
  have ne: "tdata ! k \<noteq> []" if "k < length tdata" for k
    using a that by simp
  have "map (\<lambda>k. itemRows (upstreamsRow fmt6) (rnd k) k (tdata ! k)) [0..<length tdata]
      = map (\<lambda>k. upstreamsRow fmt6 (int k + 1) (fst (?entries ! k)) (snd (?entries ! k))) [0..<length tdata]"
    by (rule map_cong [OF refl]) (simp add: itemRows_nonempty(2) [OF ne])
  then have "generateUpstreamsTable fmt6 rnd title tdata valueLabel =
           (''<h3>'' @ title @ ''</h3>'') @ upstreamsTableHead valueLabel @
           concat (map (\<lambda>k. upstreamsRow fmt6 (int k + 1) (fst (?entries ! k)) (snd (?entries ! k)))
                     [0..<length tdata]) @
           tableFoot"
    by (simp only: generateUpstreamsTable_items)
  moreover have "length ?entries = length tdata" by simp
  moreover have "\<forall>k<length tdata. ?entries ! k \<in> set (tdata ! k)"
    by (simp add: itemRows_nonempty(1) [OF ne])
  ultimately show "\<exists>entries. length entries = length tdata \<and>
         (\<forall>k<length tdata. entries ! k \<in> set (tdata ! k)) \<and>
         generateUpstreamsTable fmt6 rnd title tdata valueLabel =
           (''<h3>'' @ title @ ''</h3>'') @ upstreamsTableHead valueLabel @
           concat (map (\<lambda>k. upstreamsRow fmt6 (int k + 1) (fst (entries ! k)) (snd (entries ! k)))
                     [0..<length tdata]) @
           tableFoot"
    by blast
qed

theorem ranked_tables_sequential_indices_witness:
  "generateStatsTable (startAt 0) ''T'' [[(''example.com'', 42)], [(''b'', 7)]] ''Count'' =
     ''<h3>T</h3>'' @ statsTableHead ''Count'' @
     statsRow 1 ''example.com'' 42 @ statsRow 2 ''b'' 7 @ tableFoot
   \<and> generateUpstreamsTable fmtMicro (startAt 0) ''T'' [[(''1.1.1.1'', 12345)], [(''9.9.9.9'', 7)]] ''Count'' =
     ''<h3>T</h3>'' @ upstreamsTableHead ''Count'' @
     upstreamsRow fmtMicro 1 ''1.1.1.1'' 12345 @ upstreamsRow fmtMicro 2 ''9.9.9.9'' 7 @ tableFoot"
proof -
  let ?data = "[[(''example.com'', 42::int)], [(''b'', 7)]]"
  let ?tdata = "[[(''1.1.1.1'', 12345::nat)], [(''9.9.9.9'', 7)]]"
  have two: "[0..<length xs] = [0, 1]" if "length xs = 2" for xs :: "'a list"
    using that by (simp add: upt_rec)
  note t = ranked_tables_sequential_indices
    [where data = ?data and rnd = "startAt 0" and title = "''T''" and valueLabel = "''Count''"
       and tdata = ?tdata and ?fmt6.0 = fmtMicro]
  have "\<forall>item \<in> set ?data. item \<noteq> []" by simp
  with t obtain entries where e: "length entries = length ?data"
      "\<forall>k<length ?data. entries ! k \<in> set (?data ! k)"
      "generateStatsTable (startAt 0) ''T'' ?data ''Count'' =
         (''<h3>'' @ ''T'' @ ''</h3>'') @ statsTableHead ''Count'' @
         concat (map (\<lambda>k. statsRow (int k + 1) (fst (entries ! k)) (snd (entries ! k)))
                   [0..<length ?data]) @ tableFoot"
    by blast
  from e(2) have "entries ! 0 = (''example.com'', 42)" and "entries ! 1 = (''b'', 7)"
    by (simp_all add: all_less_two)
  with e(3) have s: "generateStatsTable (startAt 0) ''T'' ?data ''Count'' =
     ''<h3>T</h3>'' @ statsTableHead ''Count'' @
     statsRow 1 ''example.com'' 42 @ statsRow 2 ''b'' 7 @ tableFoot"
    by (simp add: two)
  have "\<forall>item \<in> set ?tdata. item \<noteq> []" by simp
  with t obtain entries where e: "length entries = length ?tdata"
      "\<forall>k<length ?tdata. entries ! k \<in> set (?tdata ! k)"
      "generateUpstreamsTable fmtMicro (startAt 0) ''T'' ?tdata ''Count'' =
         (''<h3>'' @ ''T'' @ ''</h3>'') @ upstreamsTableHead ''Count'' @
         concat (map (\<lambda>k. upstreamsRow fmtMicro (int k + 1) (fst (entries ! k)) (snd (entries ! k)))
                   [0..<length ?tdata]) @ tableFoot"
    by blast
  from e(2) have "entries ! 0 = (''1.1.1.1'', 12345)" and "entries ! 1 = (''9.9.9.9'', 7)"
    by (simp_all add: all_less_two)
  with e(3) have "generateUpstreamsTable fmtMicro (startAt 0) ''T'' ?tdata ''Count'' =
     ''<h3>T</h3>'' @ upstreamsTableHead ''Count'' @
     upstreamsRow fmtMicro 1 ''1.1.1.1'' 12345 @ upstreamsRow fmtMicro 2 ''9.9.9.9'' 7 @ tableFoot"
    by (simp add: two)
  with s show ?thesis by simp
qed

text \<open>
  The claim as stated, for every list, fails: an empty map emits no row and still takes
  an index. On the list of an empty map and the map \<^verbatim>\<open>{"a": 1}\<close> the only row emitted,
  the first, shows 2.
\<close>

theorem ranked_table_index_skips_empty_item:
  "generateStatsTable (startAt 0) ''T'' [[], [(''a'', 1)]] ''Count'' =
     ''<h3>T</h3>'' @ statsTableHead ''Count'' @ statsRow 2 ''a'' 1 @ tableFoot
   \<and> statsRow 2 ''a'' 1 \<noteq> statsRow 1 ''a'' 1"
proof
  show "generateStatsTable (startAt 0) ''T'' [[], [(''a'', 1)]] ''Count'' =
     ''<h3>T</h3>'' @ statsTableHead ''Count'' @ statsRow 2 ''a'' 1 @ tableFoot"
    by (simp add: generateStatsTable_def startAt_def)
  show "statsRow 2 ''a'' 1 \<noteq> statsRow 1 ''a'' 1"
    by (simp add: statsRow_def showInt_def showNat.simps)
qed

text \<open>
  C6. For each item of the list the ranked table and the upstream-time table append
  either nothing, when the item is an empty map, or one row, built from one entry of the
  item and the item's position; no other entry of the item reaches the output.
\<close>

theorem ranked_tables_one_entry_per_item:
  "(\<exists>rows. length rows = length data \<and>
      generateStatsTable rnd title data valueLabel =
        (''<h3>'' @ title @ ''</h3>'') @ statsTableHead valueLabel @ concat rows @ tableFoot \<and>
      (\<forall>i<length data.
         (data ! i = [] \<and> rows ! i = []) \<or>
         (\<exists>(key, val) \<in> set (data ! i). rows ! i = statsRow (int i + 1) key val))) \<and>
   (\<exists>rows. length rows = length tdata \<and>
      generateUpstreamsTable fmt6 rnd title tdata valueLabel =
        (''<h3>'' @ title @ ''</h3>'') @ upstreamsTableHead valueLabel @ concat rows @ tableFoot \<and>
      (\<forall>i<length tdata.
         (tdata ! i = [] \<and> rows ! i = []) \<or>
         (\<exists>(key, val) \<in> set (tdata ! i). rows ! i = upstreamsRow fmt6 (int i + 1) key val)))"
proof (intro conjI)
  let ?rows = "map (\<lambda>k. itemRows statsRow (rnd k) k (data ! k)) [0..<length data]"
  have "length ?rows = length data" by simp
  moreover have "generateStatsTable rnd title data valueLabel =
        (''<h3>'' @ title @ ''</h3>'') @ statsTableHead valueLabel @ concat ?rows @ tableFoot"
    by (rule generateStatsTable_items)
  moreover have "\<forall>i<length data.
         (data ! i = [] \<and> ?rows ! i = []) \<or>
         (\<exists>(key, val) \<in> set (data ! i). ?rows ! i = statsRow (int i + 1) key val)"
    using itemRows_cases [of _ statsRow] by (simp)
  ultimately show "\<exists>rows. length rows = length data \<and>
      generateStatsTable rnd title data valueLabel =
        (''<h3>'' @ title @ ''</h3>'') @ statsTableHead valueLabel @ concat rows @ tableFoot \<and>
      (\<forall>i<length data.
         (data ! i = [] \<and> rows ! i = []) \<or>
         (\<exists>(key, val) \<in> set (data ! i). rows ! i = statsRow (int i + 1) key val))"
    by blast
next
  let ?rows = "map (\<lambda>k. itemRows (upstreamsRow fmt6) (rnd k) k (tdata ! k)) [0..<length tdata]"
  have "length ?rows = length tdata" by simp
  moreover have "generateUpstreamsTable fmt6 rnd title tdata valueLabel =
        (''<h3>'' @ title @ ''</h3>'') @ upstreamsTableHead valueLabel @ concat ?rows @ tableFoot"
    by (rule generateUpstreamsTable_items)
  moreover have "\<forall>i<length tdata.
         (tdata ! i = [] \<and> ?rows ! i = []) \<or>
         (\<exists>(key, val) \<in> set (tdata ! i). ?rows ! i = upstreamsRow fmt6 (int i + 1) key val)"
    using itemRows_cases [of _ "upstreamsRow fmt6"] by (simp)
  ultimately show "\<exists>rows. length rows = length tdata \<and>
      generateUpstreamsTable fmt6 rnd title tdata valueLabel =
        (''<h3>'' @ title @ ''</h3>'') @ upstreamsTableHead valueLabel @ concat rows @ tableFoot \<and>
      (\<forall>i<length tdata.
         (tdata ! i = [] \<and> rows ! i = []) \<or>
         (\<exists>(key, val) \<in> set (tdata ! i). rows ! i = upstreamsRow fmt6 (int i + 1) key val))"
    by blast
qed

theorem ranked_tables_one_entry_per_item_witness:
  "(generateStatsTable (startAt 1) ''T'' [[(''example.com'', 42), (''extra'', 1)], []] ''Count'' =
      ''<h3>T</h3>'' @ statsTableHead ''Count'' @ statsRow 1 ''example.com'' 42 @ tableFoot
    \<or> generateStatsTable (startAt 1) ''T'' [[(''example.com'', 42), (''extra'', 1)], []] ''Count'' =
      ''<h3>T</h3>'' @ statsTableHead ''Count'' @ statsRow 1 ''extra'' 1 @ tableFoot)
   \<and> (generateUpstreamsTable fmtMicro (startAt 1) ''T'' [[(''1.1.1.1'', 12345), (''extra'', 1)], []] ''Count'' =
      ''<h3>T</h3>'' @ upstreamsTableHead ''Count'' @ upstreamsRow fmtMicro 1 ''1.1.1.1'' 12345 @ tableFoot
    \<or> generateUpstreamsTable fmtMicro (startAt 1) ''T'' [[(''1.1.1.1'', 12345), (''extra'', 1)], []] ''Count'' =
      ''<h3>T</h3>'' @ upstreamsTableHead ''Count'' @ upstreamsRow fmtMicro 1 ''extra'' 1 @ tableFoot)"
proof -
  let ?data = "[[(''example.com'', 42::int), (''extra'', 1)], []]"
  let ?tdata = "[[(''1.1.1.1'', 12345::nat), (''extra'', 1)], []]"
  note t = ranked_tables_one_entry_per_item
    [where data = ?data and rnd = "startAt 1" and title = "''T''" and valueLabel = "''Count''"
       and tdata = ?tdata and ?fmt6.0 = fmtMicro]
  from t obtain rows where r: "length rows = length ?data"
      "generateStatsTable (startAt 1) ''T'' ?data ''Count'' =
        (''<h3>'' @ ''T'' @ ''</h3>'') @ statsTableHead ''Count'' @ concat rows @ tableFoot"
      "\<forall>i<length ?data.
         (?data ! i = [] \<and> rows ! i = []) \<or>
         (\<exists>(key, val) \<in> set (?data ! i). rows ! i = statsRow (int i + 1) key val)"
    by blast
  from r(3) have "rows ! 1 = []"
    and "rows ! 0 = statsRow 1 ''example.com'' 42 \<or> rows ! 0 = statsRow 1 ''extra'' 1"
    by (simp_all add: all_less_two)
  with r(1,2) have s: "generateStatsTable (startAt 1) ''T'' ?data ''Count'' =
      ''<h3>T</h3>'' @ statsTableHead ''Count'' @ statsRow 1 ''example.com'' 42 @ tableFoot
    \<or> generateStatsTable (startAt 1) ''T'' ?data ''Count'' =
      ''<h3>T</h3>'' @ statsTableHead ''Count'' @ statsRow 1 ''extra'' 1 @ tableFoot"
    by (auto simp add: concat_two)
  from t obtain rows where r: "length rows = length ?tdata"
      "generateUpstreamsTable fmtMicro (startAt 1) ''T'' ?tdata ''Count'' =
        (''<h3>'' @ ''T'' @ ''</h3>'') @ upstreamsTableHead ''Count'' @ concat rows @ tableFoot"
      "\<forall>i<length ?tdata.
         (?tdata ! i = [] \<and> rows ! i = []) \<or>
         (\<exists>(key, val) \<in> set (?tdata ! i). rows ! i = upstreamsRow fmtMicro (int i + 1) key val)"
    by blast
  from r(3) have "rows ! 1 = []"
    and "rows ! 0 = upstreamsRow fmtMicro 1 ''1.1.1.1'' 12345 \<or> rows ! 0 = upstreamsRow fmtMicro 1 ''extra'' 1"
    by (simp_all add: all_less_two)
  with r(1,2) have "generateUpstreamsTable fmtMicro (startAt 1) ''T'' ?tdata ''Count'' =
      ''<h3>T</h3>'' @ upstreamsTableHead ''Count'' @ upstreamsRow fmtMicro 1 ''1.1.1.1'' 12345 @ tableFoot
    \<or> generateUpstreamsTable fmtMicro (startAt 1) ''T'' ?tdata ''Count'' =
      ''<h3>T</h3>'' @ upstreamsTableHead ''Count'' @ upstreamsRow fmtMicro 1 ''extra'' 1 @ tableFoot"
    by (auto simp add: concat_two)
  with s show ?thesis by blast
qed

text \<open>
  C7, as amended. On lists whose items have at most one key each, the ranked table and
  the upstream-time table do not depend on the choices of the runtime: two runs on the
  same input give the same string. (The clients table and the page-content builders
  read no map and take no such choice; they are functions of their arguments alone.)
\<close>

theorem ranked_tables_deterministic_single_key:
  "((\<forall>item \<in> set data. length item \<le> 1) \<longrightarrow>
       generateStatsTable rnd title data valueLabel = generateStatsTable rnd' title data valueLabel) \<and>
   ((\<forall>item \<in> set tdata. length item \<le> 1) \<longrightarrow>
       generateUpstreamsTable fmt6 rnd title tdata valueLabel =
       generateUpstreamsTable fmt6 rnd' title tdata valueLabel)"
proof (intro conjI impI)
  assume a: "\<forall>item \<in> set data. length item \<le> 1"
  have "map (\<lambda>k. itemRows statsRow (rnd k) k (data ! k)) [0..<length data]
      = map (\<lambda>k. itemRows statsRow (rnd' k) k (data ! k)) [0..<length data]"
  proof (rule map_cong [OF refl])
    fix k assume "k \<in> set [0..<length data]"
    then have "data ! k \<in> set data" by simp
    with a have "length (data ! k) \<le> 1" by blast
    then show "itemRows statsRow (rnd k) k (data ! k) = itemRows statsRow (rnd' k) k (data ! k)"
      by (rule itemRows_single)
  qed
  then show "generateStatsTable rnd title data valueLabel = generateStatsTable rnd' title data valueLabel"
    by (simp only: generateStatsTable_items)
next
  assume a: "\<forall>item \<in> set tdata. length item \<le> 1"
  have "map (\<lambda>k. itemRows (upstreamsRow fmt6) (rnd k) k (tdata ! k)) [0..<length tdata]
      = map (\<lambda>k. itemRows (upstreamsRow fmt6) (rnd' k) k (tdata ! k)) [0..<length tdata]"
  proof (rule map_cong [OF refl])
    fix k assume "k \<in> set [0..<length tdata]"
    then have "tdata ! k \<in> set tdata" by simp
    with a have "length (tdata ! k) \<le> 1" by blast
    then show "itemRows (upstreamsRow fmt6) (rnd k) k (tdata ! k) = itemRows (upstreamsRow fmt6) (rnd' k) k (tdata ! k)"
      by (rule itemRows_single)
  qed
  then show "generateUpstreamsTable fmt6 rnd title tdata valueLabel =
       generateUpstreamsTable fmt6 rnd' title tdata valueLabel"
    by (simp only: generateUpstreamsTable_items)
qed

theorem ranked_tables_deterministic_single_key_witness:
  "generateStatsTable (startAt 0) ''T'' [[(''example.com'', 42)], []] ''Count'' =
   generateStatsTable (startAt 1) ''T'' [[(''example.com'', 42)], []] ''Count''
   \<and> generateUpstreamsTable fmtMicro (startAt 0) ''T'' [[(''1.1.1.1'', 12345)]] ''Count'' =
     generateUpstreamsTable fmtMicro (startAt 1) ''T'' [[(''1.1.1.1'', 12345)]] ''Count''"
proof -
  have a: "\<forall>item \<in> set [[(''example.com'', 42::int)], []]. length item \<le> 1" by simp
  have b: "\<forall>item \<in> set [[(''1.1.1.1'', 12345::nat)]]. length item \<le> 1" by simp
  from ranked_tables_deterministic_single_key
    [where data = "[[(''example.com'', 42)], []]" and rnd = "startAt 0" and rnd' = "startAt 1"
       and title = "''T''" and valueLabel = "''Count''"
       and tdata = "[[(''1.1.1.1'', 12345)]]" and ?fmt6.0 = fmtMicro] a b
  show ?thesis by blast
qed

text \<open>
  The claim as stated, for every input, fails: on an item with two keys the row that is
  emitted depends on where the runtime starts the \<^verbatim>\<open>range\<close>, and two runs differ.
\<close>

theorem ranked_table_two_keys_two_outputs:
  "generateStatsTable (startAt 0) ''T'' [[(''a'', 1), (''b'', 2)]] ''Count'' \<noteq>
   generateStatsTable (startAt 1) ''T'' [[(''a'', 1), (''b'', 2)]] ''Count''"
  by (simp add: generateStatsTable_def startAt_def statsRow_def showInt_def showNat.simps)

text \<open>
  The rows of the example scenario: the client \<^verbatim>\<open>10.0.0.5 | laptop | rdns | US | ISP | NYC\<close>,
  the ranked entry \<^verbatim>\<open>1 | example.com | 42\<close>, and an upstream time of 12345 millionths.
\<close>

lemma example_rows:
  \<open>clientRow exampleClient =
     ''\<newline>'' @
     ''      <tr>\<newline>'' @
     ''        <td>10.0.0.5</td>\<newline>'' @
     ''        <td>laptop</td>\<newline>'' @
     ''        <td>rdns</td>\<newline>'' @
     ''        <td>US</td>\<newline>'' @
     ''        <td>ISP</td>\<newline>'' @
     ''        <td>NYC</td>\<newline>'' @
     ''      </tr>''\<close>
  \<open>statsRow 1 ''example.com'' 42 =
     ''\<newline>'' @
     ''        <tr>\<newline>'' @
     ''          <td>1</td>\<newline>'' @
     ''          <td>example.com</td>\<newline>'' @
     ''          <td style="text-align: right;">42</td>\<newline>'' @
     ''        </tr>''\<close>
  \<open>upstreamsRow fmtMicro 1 ''1.1.1.1'' 12345 =
     ''\<newline>'' @
     ''        <tr>\<newline>'' @
     ''          <td>1</td>\<newline>'' @
     ''          <td>1.1.1.1</td>\<newline>'' @
     ''          <td style="text-align: right;">0.012345</td>\<newline>'' @
     ''        </tr>''\<close>
  by (simp_all add: clientRow_def exampleClient_def statsRow_def upstreamsRow_def fmtMicro_def
        showInt_def showNat.simps)

subsection \<open>Configuration and start-up\<close>

text \<open>
  Decoding the entries of a mapping with distinct keys whose values under the three tags
  are scalars or nulls succeeds, and each field ends as the scalar given under its tag, or
  as it was when the tag is missing or null.
\<close>

lemma decodeAdGuardEntries_skip:
  assumes "''server_url'' \<notin> fst ` set entries" "''username'' \<notin> fst ` set entries"
    "''password'' \<notin> fst ` set entries"
  shows "decodeAdGuardEntries entries out = Inr out"
  using assms by (induction entries arbitrary: out) auto








text \<open>
  C8. The README promises the variables \<^verbatim>\<open>PORT\<close> and \<^verbatim>\<open>CONFIG_PATH\<close>; the
  program reads neither. With \<^verbatim>\<open>PORT=9090\<close> it listens on \<^verbatim>\<open>:8080\<close>, and with
  \<^verbatim>\<open>CONFIG_PATH\<close> naming the only configuration file there is, it looks for
  \<^verbatim>\<open>config.yaml\<close> in the working directory and stops.
\<close>

theorem main_fixed_port_and_path:
  "main exampleEnviron (openOnly ''config.yaml'' exampleFile) exampleTemplates anyTemplate =
     Listening '':8080'' exampleConfig
   \<and> main exampleEnviron (openOnly ''/etc/aghamon/config.yaml'' exampleFile) exampleTemplates anyTemplate =
     Fatal ''Failed to load config:'' (Error ''open config.yaml: no such file or directory'')"
  by (simp add: main_def loadConfig_def openOnly_def exampleFile_def exampleTemplates_def
        anyTemplate_def zeroConfig_def exampleConfig_def)

lemma main_ignores_environ:
  "main environ Open templateReadFile parses = main environ' Open templateReadFile parses"
  by (simp add: main_def)

end
